theory Spec2Isabelle
  imports Complex_Main "HOL-Library.Sublist"
begin

text \<open>
  A shallow embedding of \<open>ai_reply_engine.py\<close>, the AI reply engine of the marketplace
  chat assistant: the response normalizer, the choice between the two backend protocols,
  the cache of OpenAI clients, the conversation store, the intent classifier and
  \<open>generate_reply\<close>. A method of \<open>AIReplyEngine\<close> is a function of the outside
  world, the state and its arguments that returns its result with the new state; a
  \<open>try\<close> block is a function that returns an exception or a value, and the function
  around it maps the exception to the fallback of the \<open>except\<close> branch. Calls of the
  logger change nothing and are left out, and so is the lock around the database
  statements: one call is followed from its start to its end.
\<close>

section \<open>Python strings\<close>

text \<open>
  A Python \<open>str\<close> is a sequence of Unicode code points, so it is modelled as a list of
  natural numbers. ASCII literals are written \<open>ascii ''...''\<close>; the Chinese literals of the
  source are given by their code points.
\<close>

type_synonym pystr = "nat list"

definition ascii :: "string \<Rightarrow> pystr" where
  "ascii s = map of_char s"

text \<open>\<open>str.isspace\<close> of one character: the code points CPython treats as whitespace.\<close>

definition py_isspace :: "nat \<Rightarrow> bool" where
  "py_isspace c \<longleftrightarrow> c \<in> set [9, 10, 11, 12, 13, 28, 29, 30, 31, 32, 133, 160, 5760,
     8192, 8193, 8194, 8195, 8196, 8197, 8198, 8199, 8200, 8201, 8202,
     8232, 8233, 8239, 8287, 12288]"

definition py_lstrip :: "pystr \<Rightarrow> pystr" where
  "py_lstrip s = dropWhile py_isspace s"

definition py_rstrip :: "pystr \<Rightarrow> pystr" where
  "py_rstrip s = rev (dropWhile py_isspace (rev s))"

text \<open>\<open>s.strip()\<close>\<close>

definition py_strip :: "pystr \<Rightarrow> pystr" where
  "py_strip s = py_rstrip (py_lstrip s)"

text \<open>
  \<open>needle in hay\<close> on strings is \<^const>\<open>sublist\<close> (a contiguous occurrence).
  \<open>split_first sep s\<close> cuts \<open>s\<close> at the first occurrence of \<open>sep\<close> and returns the text
  before and after it, or \<open>None\<close> when \<open>sep\<close> does not occur.
\<close>

fun split_first :: "pystr \<Rightarrow> pystr \<Rightarrow> (pystr \<times> pystr) option" where
  "split_first sep [] = (if sep = [] then Some ([], []) else None)"
| "split_first sep (c # cs) =
     (if prefix sep (c # cs) then Some ([], drop (length sep) (c # cs))
      else map_option (\<lambda>(a, r). (c # a, r)) (split_first sep cs))"

text \<open>\<open>s.replace(c, '')\<close> for a one-character \<open>c\<close>.\<close>

definition py_remove_char :: "nat \<Rightarrow> pystr \<Rightarrow> pystr" where
  "py_remove_char c s = filter (\<lambda>x. x \<noteq> c) s"

text \<open>
  \<open>s.lower()\<close>. An ASCII character is mapped by the ASCII rule. The lower-case mapping of
  a non-ASCII character comes from CPython's Unicode tables, which are not part of the
  repository: it is the parameter \<open>lc\<close>, applied to the text before the character, the
  character and the text after it (the mapping of capital sigma depends on its context).
\<close>

definition ascii_lower :: "nat \<Rightarrow> nat" where
  "ascii_lower c = (if 65 \<le> c \<and> c \<le> 90 then c + 32 else c)"

fun lower_from :: "(pystr \<Rightarrow> nat \<Rightarrow> pystr \<Rightarrow> pystr) \<Rightarrow> pystr \<Rightarrow> pystr \<Rightarrow> pystr" where
  "lower_from lc before [] = []"
| "lower_from lc before (c # cs) =
     (if c < 128 then [ascii_lower c] else lc before c cs) @ lower_from lc (before @ [c]) cs"

definition py_lower :: "(pystr \<Rightarrow> nat \<Rightarrow> pystr \<Rightarrow> pystr) \<Rightarrow> pystr \<Rightarrow> pystr" where
  "py_lower lc s = lower_from lc [] s"

text \<open>\<open>sep.join(xs)\<close>\<close>

fun py_join :: "pystr \<Rightarrow> pystr list \<Rightarrow> pystr" where
  "py_join sep [] = []"
| "py_join sep [x] = x"
| "py_join sep (x # y # ys) = x @ sep @ py_join sep (y # ys)"

text \<open>\<open>str(n)\<close> of an integer.\<close>

fun digits :: "nat \<Rightarrow> pystr" where
  "digits n = (if n < 10 then [48 + n] else digits (n div 10) @ [48 + n mod 10])"

declare digits.simps [simp del]

definition str_int :: "int \<Rightarrow> pystr" where
  "str_int i = (if i < 0 then 45 # digits (nat (- i)) else digits (nat i))"

section \<open>Exceptions\<close>

datatype py_exn =
    KeyError | IndexError | ValueError | JSONDecodeError
  | ClientInitError | APIError | RequestError | HTTPStatusError int | ResponseFormatError
  | DatabaseError

section \<open>Response normalizer\<close>

definition think_open :: pystr where
  "think_open = ascii ''<think>''"

definition think_close :: pystr where
  "think_close = ascii ''</think>''"

text \<open>
  \<open>re.sub(r'<think>.*?</think>', '', text, flags=re.DOTALL)\<close>: the scan goes left to
  right; at a position where \<open><think>\<close> starts, the non-greedy body ends at the first
  \<open></think>\<close> that follows, the match is dropped and the scan resumes after it; where no
  match starts, the character is kept.
\<close>

lemma split_first_length:
  "split_first sep s = Some (a, r) \<Longrightarrow> length r \<le> length s"
  by (induction s arbitrary: a) (auto split: if_splits)

lemma split_first_decomp:
  "split_first sep s = Some (a, r) \<Longrightarrow> s = a @ sep @ r"
proof (induction s arbitrary: a)
  case Nil
  then show ?case by (simp split: if_splits)
next
  case (Cons c cs)
  show ?case
  proof (cases "prefix sep (c # cs)")
    case True
    with Cons.prems have "a = []" and "r = drop (length sep) (c # cs)"
      by simp_all
    moreover from True have "c # cs = sep @ drop (length sep) (c # cs)"
      by (metis append_eq_conv_conj prefixE)
    ultimately show ?thesis by simp
  next
    case False
    with Cons.prems obtain a' where "split_first sep cs = Some (a', r)" and "a = c # a'"
      by auto
    with Cons.IH show ?thesis by simp
  qed
qed

function re_sub_think :: "pystr \<Rightarrow> pystr" where
  "re_sub_think [] = []"
| "re_sub_think (c # cs) =
     (if prefix think_open (c # cs) then
        (case split_first think_close (drop (length think_open) (c # cs)) of
           Some (body, rest) \<Rightarrow> re_sub_think rest
         | None \<Rightarrow> c # re_sub_think cs)
      else c # re_sub_think cs)"
  by pat_completeness auto
termination
proof (relation "measure length")
  fix c cs x2 body rest
  assume "split_first think_close (drop (length think_open) (c # cs)) = Some x2"
    and "(body, rest) = x2"
  then have "length rest \<le> length (drop (length think_open) (c # cs))"
    using split_first_length by metis
  also have "\<dots> < length (c # cs)"
    by (simp add: think_open_def ascii_def)
  finally show "(rest, c # cs) \<in> measure length"
    by simp
qed auto

text \<open>\<open>_clean_thinking_content\<close>\<close>

definition clean_thinking_content :: "pystr \<Rightarrow> pystr" where
  "clean_thinking_content text =
     (if text = [] then [] else py_strip (re_sub_think text))"

text \<open>
  The raw response of the chat-completions call, as far as the code reads it:
  \<open>response.choices[0].message\<close> with its \<open>content\<close> and \<open>reasoning_content\<close>.
  \<open>None\<close> stands for an attribute that is \<open>None\<close> or missing (\<open>getattr\<close> then gives
  \<open>''\<close>); both are falsy.
\<close>

record message =
  content :: "pystr option"
  reasoning_content :: "pystr option"

record chat_response =
  choices :: "message list"

text \<open>The body of the \<open>try\<close> of \<open>_extract_response_content\<close>.\<close>

definition extract_response_content_try :: "chat_response \<Rightarrow> py_exn + pystr" where
  "extract_response_content_try response =
     (case choices response of
        [] \<Rightarrow> Inl IndexError
      | msg # _ \<Rightarrow>
          (let final_reply =
                 (case content msg of
                    None \<Rightarrow> []
                  | Some c \<Rightarrow>
                      if c \<noteq> [] then
                        (if sublist think_open c then clean_thinking_content c
                         else py_strip c)
                      else [])
           in if final_reply = [] then
                (case reasoning_content msg of
                   Some (_ # _) \<Rightarrow> Inr []
                 | _ \<Rightarrow> Inr [])
              else Inr final_reply))"

text \<open>\<open>_extract_response_content\<close>: any exception of the body is caught and gives \<open>''\<close>.\<close>

definition extract_response_content :: "chat_response \<Rightarrow> pystr" where
  "extract_response_content response =
     (case extract_response_content_try response of
        Inl e \<Rightarrow> []
      | Inr reply \<Rightarrow> reply)"

text \<open>
  The normalizer in the words of the specification: every deliberation block, from the
  first start marker to the first end marker after it, is removed; a start marker that
  no end marker follows stays, with the text after it.
\<close>

function remove_think_blocks :: "pystr \<Rightarrow> pystr" where
  "remove_think_blocks s =
     (case split_first think_open s of
        None \<Rightarrow> s
      | Some (before, rest) \<Rightarrow>
          (case split_first think_close rest of
             None \<Rightarrow> s
           | Some (body, after) \<Rightarrow> before @ remove_think_blocks after))"
  by pat_completeness auto
termination
proof (relation "measure length")
  fix s x2 before rest y2 body after
  assume "split_first think_open s = Some x2" and "(before, rest) = x2"
    and "split_first think_close rest = Some y2" and "(body, after) = y2"
  then have "s = before @ think_open @ rest" and "length after \<le> length rest"
    using split_first_decomp split_first_length by metis+
  then have "length after < length s"
    by (simp add: think_open_def ascii_def)
  then show "(after, s) \<in> measure length"
    by simp
qed auto

declare remove_think_blocks.simps [simp del]

section \<open>Account settings and protocol selection\<close>

text \<open>
  \<open>db_manager.get_ai_reply_settings(cookie_id)\<close> is not among the repository's files; the
  dict it returns is taken as this record. A value that may be Python's \<open>None\<close> is an
  option. \<open>base_url\<close>, \<open>model_name\<close> and the three negotiation bounds are read with
  \<open>settings.get(key, default)\<close>: there \<open>None\<close> stands for an absent key, and
  \<open>settings[key]\<close> on it raises \<open>KeyError\<close>.
\<close>

record ai_settings =
  ai_enabled :: bool
  api_key :: "pystr option"
  base_url :: "pystr option"
  model_name :: "pystr option"
  custom_prompts :: "pystr option"
  max_bargain_rounds :: "int option"
  max_discount_percent :: "int option"
  max_discount_amount :: "int option"

text \<open>Truth value of a string that may be \<open>None\<close>, and its rendering in an f-string.\<close>

definition truthy :: "pystr option \<Rightarrow> bool" where
  "truthy v = (case v of None \<Rightarrow> False | Some s \<Rightarrow> s \<noteq> [])"

definition format_opt :: "pystr option \<Rightarrow> pystr" where
  "format_opt v = (case v of None \<Rightarrow> ascii ''None'' | Some s \<Rightarrow> s)"

text \<open>\<open>d.get(key, default)\<close>\<close>

definition get_or :: "'a option \<Rightarrow> 'a \<Rightarrow> 'a" where
  "get_or v d = (case v of None \<Rightarrow> d | Some x \<Rightarrow> x)"

type_synonym lower_table = "pystr \<Rightarrow> nat \<Rightarrow> pystr \<Rightarrow> pystr"

text \<open>The model names that select the DashScope format; the second one is U+81EA U+5B9A U+4E49.\<close>

definition custom_model_names :: "pystr list" where
  "custom_model_names =
     [ascii ''custom'', [0x81EA, 0x5B9A, 0x4E49], ascii ''dashscope'', ascii ''qwen-custom'']"

definition dashscope_domain :: pystr where
  "dashscope_domain = ascii ''dashscope.aliyuncs.com''"

text \<open>\<open>_is_dashscope_api\<close>\<close>

definition is_dashscope_api :: "lower_table \<Rightarrow> ai_settings \<Rightarrow> bool" where
  "is_dashscope_api lc settings =
     (let name = get_or (model_name settings) [];
          url = get_or (base_url settings) [];
          is_custom_model = (py_lower lc name \<in> set custom_model_names);
          is_dashscope_url = sublist dashscope_domain url
      in is_custom_model \<and> is_dashscope_url)"

section \<open>The engine, the store and the outside world\<close>

text \<open>One message of a prompt: \<open>{"role": ..., "content": ...}\<close>.\<close>

record chat_msg =
  role :: pystr
  msg_content :: pystr

text \<open>An \<open>OpenAI(api_key=..., base_url=...)\<close> client.\<close>

record openai_client =
  client_api_key :: pystr
  client_base_url :: pystr

text \<open>The arguments of \<open>client.chat.completions.create\<close> and of \<open>requests.post\<close>.\<close>

record chat_request =
  req_client :: openai_client
  req_model :: pystr
  req_messages :: "chat_msg list"
  req_max_tokens :: nat
  req_temperature :: real
  req_thinking_disabled :: bool

record http_request =
  http_url :: pystr
  http_authorization :: pystr
  http_prompt :: pystr
  http_max_tokens :: nat
  http_temperature :: real
  http_thinking_disabled :: bool
  http_timeout :: nat

text \<open>
  The HTTP response as the code reads it: the status, the body, and what
  \<open>response.json()['output']['text']\<close> gives: an exception of \<open>json()\<close>, no such
  field, or the text.
\<close>

record http_response =
  status_code :: int
  body_text :: pystr
  output_text :: "py_exn + pystr option"

datatype backend_call = ChatCompletion chat_request | DashScopePost http_request

text \<open>One call of a model backend: the request, and what the calling function got.\<close>

record call_record =
  call_request :: backend_call
  call_reply :: "py_exn + pystr"

text \<open>A row of the table \<open>ai_conversations\<close>.\<close>

record conversation_row =
  row_cookie_id :: pystr
  row_chat_id :: pystr
  row_user_id :: pystr
  row_item_id :: pystr
  row_role :: pystr
  row_content :: pystr
  row_intent :: "pystr option"

text \<open>
  Everything outside the module that a run depends on: the Unicode lower-case table,
  \<open>json.loads\<close> on the custom prompts (an exception, or the dict), the constructor of
  the OpenAI client, the two backends (the answer may differ from call to call, so it
  depends on the number of calls made before), the clock and the faults of the database
  (by the number of the reading and of the operation).

  \<open>time.time()\<close> returns a float. A float is given by its value, a real number, and
  \<open>float_sub\<close> is the subtraction of two floats as the machine computes it: the result
  is rounded to a float, so it can differ from the difference of the two values. The
  comparison of a float with an \<open>int\<close> is exact in Python.

  The column \<open>created_at\<close> of the conversation table is filled by the database and not
  by the \<open>INSERT\<close> of this module, and the schema is not part of the module:
  \<open>created_at_desc\<close> is the order in which the database returns the selected rows
  under \<open>ORDER BY created_at DESC\<close>, given in insertion order.
\<close>

record env =
  unicode_lower :: lower_table
  json_loads :: "pystr \<Rightarrow> py_exn + (pystr \<Rightarrow> pystr option)"
  openai_init_fails :: "pystr \<Rightarrow> pystr \<Rightarrow> bool"
  chat_completions_create :: "nat \<Rightarrow> chat_request \<Rightarrow> py_exn + chat_response"
  requests_post :: "nat \<Rightarrow> http_request \<Rightarrow> py_exn + http_response"
  time_time :: "nat \<Rightarrow> real"
  float_sub :: "real \<Rightarrow> real \<Rightarrow> real"
  db_fails :: "nat \<Rightarrow> bool"
  created_at_desc :: "conversation_row list \<Rightarrow> conversation_row list"

text \<open>
  The state: the three dicts and the prompt table of the engine (a dict is a map; the
  code never depends on the order of its keys), the settings and the conversation table
  of the database (rows in insertion order), the counters of database operations and
  clock readings, and the log of backend calls. \<open>settings_table\<close> is what
  \<open>db_manager.get_ai_reply_settings\<close> returns for each account; that read is taken
  not to fail.
\<close>

record world =
  clients :: "pystr \<rightharpoonup> openai_client"
  agents :: "pystr \<rightharpoonup> unit"
  client_last_used :: "pystr \<rightharpoonup> real"
  default_prompts :: "pystr \<rightharpoonup> pystr"
  settings_table :: "pystr \<Rightarrow> ai_settings"
  ai_conversations :: "conversation_row list"
  db_ops :: nat
  clock_ticks :: nat
  backend_calls :: "call_record list"

section \<open>Client resource manager\<close>

text \<open>\<open>get_client\<close>\<close>

definition get_client :: "env \<Rightarrow> world \<Rightarrow> pystr \<Rightarrow> openai_client option \<times> world" where
  "get_client e st cookie_id =
     (let created =
            (case clients st cookie_id of
               Some c \<Rightarrow> Some st
             | None \<Rightarrow>
                 (let settings = settings_table st cookie_id in
                  if \<not> ai_enabled settings \<or> \<not> truthy (api_key settings) then None
                  else
                    (case base_url settings of
                       None \<Rightarrow> None
                     | Some url \<Rightarrow>
                         if openai_init_fails e (format_opt (api_key settings)) url then None
                         else Some (st\<lparr>clients := (clients st)(cookie_id \<mapsto>
                                \<lparr>client_api_key = format_opt (api_key settings),
                                  client_base_url = url\<rparr>)\<rparr>))))
      in case created of
           None \<Rightarrow> (None, st)
         | Some st1 \<Rightarrow>
             (clients st1 cookie_id,
              st1\<lparr>client_last_used :=
                     (client_last_used st1)(cookie_id \<mapsto> time_time e (clock_ticks st1)),
                   clock_ticks := Suc (clock_ticks st1)\<rparr>))"

text \<open>\<open>clear_client_cache\<close>\<close>

definition clear_client_cache :: "world \<Rightarrow> pystr option \<Rightarrow> world" where
  "clear_client_cache st cookie_id =
     (if truthy cookie_id then
        st\<lparr>clients := (clients st)(format_opt cookie_id := None),
           client_last_used := (client_last_used st)(format_opt cookie_id := None)\<rparr>
      else st\<lparr>clients := Map.empty, client_last_used := Map.empty\<rparr>)"

text \<open>
  \<open>cleanup_unused_clients\<close>. The list \<open>expired_clients\<close> holds the keys of
  \<open>client_last_used\<close> whose entry satisfies the test; the loop pops each of them from
  the three dicts.
\<close>

definition cleanup_unused_clients :: "env \<Rightarrow> world \<Rightarrow> int \<Rightarrow> world" where
  "cleanup_unused_clients e st max_idle_hours =
     (let current_time = time_time e (clock_ticks st);
          max_idle_seconds = max_idle_hours * 3600;
          expired_clients = (\<lambda>cookie_id.
             case client_last_used st cookie_id of
               None \<Rightarrow> False
             | Some last_used \<Rightarrow>
                 float_sub e current_time last_used > real_of_int max_idle_seconds)
      in st\<lparr>clients := (\<lambda>k. if expired_clients k then None else clients st k),
            client_last_used := (\<lambda>k. if expired_clients k then None else client_last_used st k),
            agents := (\<lambda>k. if expired_clients k then None else agents st k),
            clock_ticks := Suc (clock_ticks st)\<rparr>)"

section \<open>Conversation store\<close>

text \<open>
  Each of the three functions runs one statement under the lock, inside
  \<open>try ... except Exception\<close>: when the database raises, the error is logged and
  swallowed, and the function returns its fallback.
\<close>

definition matches :: "pystr \<Rightarrow> pystr \<Rightarrow> conversation_row \<Rightarrow> bool" where
  "matches chat_id cookie_id r \<longleftrightarrow> row_chat_id r = chat_id \<and> row_cookie_id r = cookie_id"

text \<open>
  \<open>get_conversation_context\<close>: the rows of the chat in the order of
  \<open>ORDER BY created_at DESC\<close>, the first \<open>limit\<close> of them, reversed.
\<close>

definition get_conversation_context ::
  "env \<Rightarrow> world \<Rightarrow> pystr \<Rightarrow> pystr \<Rightarrow> nat \<Rightarrow> chat_msg list \<times> world" where
  "get_conversation_context e st chat_id cookie_id limit =
     (let st1 = st\<lparr>db_ops := Suc (db_ops st)\<rparr> in
      if db_fails e (db_ops st) then ([], st1)
      else
        (let results =
               take limit
                 (created_at_desc e (filter (matches chat_id cookie_id) (ai_conversations st)))
         in (map (\<lambda>r. \<lparr>role = row_role r, msg_content = row_content r\<rparr>) (rev results),
             st1)))"

text \<open>\<open>save_conversation\<close>\<close>

definition save_conversation ::
  "env \<Rightarrow> world \<Rightarrow> pystr \<Rightarrow> pystr \<Rightarrow> pystr \<Rightarrow> pystr \<Rightarrow> pystr \<Rightarrow> pystr \<Rightarrow> pystr option \<Rightarrow> world" where
  "save_conversation e st chat_id cookie_id user_id item_id rl text intent =
     (let st1 = st\<lparr>db_ops := Suc (db_ops st)\<rparr> in
      if db_fails e (db_ops st) then st1
      else st1\<lparr>ai_conversations := ai_conversations st @
             [\<lparr>row_cookie_id = cookie_id, row_chat_id = chat_id, row_user_id = user_id,
               row_item_id = item_id, row_role = rl, row_content = text,
               row_intent = intent\<rparr>]\<rparr>)"

text \<open>\<open>get_bargain_count\<close>\<close>

definition get_bargain_count :: "env \<Rightarrow> world \<Rightarrow> pystr \<Rightarrow> pystr \<Rightarrow> int \<times> world" where
  "get_bargain_count e st chat_id cookie_id =
     (let st1 = st\<lparr>db_ops := Suc (db_ops st)\<rparr> in
      if db_fails e (db_ops st) then (0, st1)
      else
        (int (length (filter (\<lambda>r. matches chat_id cookie_id r
                \<and> row_intent r = Some (ascii ''price'') \<and> row_role r = ascii ''user'')
             (ai_conversations st))), st1))"

section \<open>Backend calls\<close>

text \<open>\<open>s.split(sep)[-1]\<close>: the text after the last of the occurrences of \<open>sep\<close>, found from the left.\<close>

function split_last :: "pystr \<Rightarrow> pystr \<Rightarrow> pystr" where
  "split_last sep s =
     (if sep = [] then s
      else (case split_first sep s of
              None \<Rightarrow> s
            | Some (before, rest) \<Rightarrow> split_last sep rest))"
  by pat_completeness auto
termination
proof (relation "measure (\<lambda>(sep, s). length s)")
  fix sep s :: pystr and x2 before rest
  assume "sep \<noteq> []" and "split_first sep s = Some x2" and "(before, rest) = x2"
  then have "s = before @ sep @ rest"
    using split_first_decomp by metis
  with \<open>sep \<noteq> []\<close> have "length rest < length s"
    by simp
  then show "((sep, rest), (sep, s)) \<in> measure (\<lambda>(sep, s). length s)"
    by simp
qed auto

declare split_last.simps [simp del]

definition glm_marker :: pystr where
  "glm_marker = ascii ''glm-4.5''"

text \<open>
  The prompt of the DashScope request. The loop keeps the content of the last system
  message and of the last user message. The two Chinese pieces of the format are
  \<open>"\n\n" U+7528 U+6237 U+95EE U+9898 U+FF1A\<close> (the user's question) and
  \<open>"\n\n" U+8BF7 U+76F4 U+63A5 U+56DE U+7B54 U+7528 U+6237 U+7684 U+95EE U+9898 U+FF1A\<close>
  (please answer the user's question directly).
\<close>

definition dashscope_prompt :: "chat_msg list \<Rightarrow> pystr" where
  "dashscope_prompt messages =
     (let (system_content, user_content) =
            fold (\<lambda>msg (sys, usr).
                    if role msg = ascii ''system'' then (msg_content msg, usr)
                    else if role msg = ascii ''user'' then (sys, msg_content msg)
                    else (sys, usr))
              messages ([], [])
      in if system_content \<noteq> [] \<and> user_content \<noteq> [] then
           system_content @ [10, 10, 29992, 25143, 38382, 39064, 65306] @ user_content
             @ [10, 10, 35831, 30452, 25509, 22238, 31572, 29992, 25143, 30340, 38382, 39064, 65306]
         else if user_content \<noteq> [] then user_content
         else py_join [10] (map (\<lambda>msg. role msg @ ascii '': '' @ msg_content msg) messages))"

text \<open>\<open>_call_dashscope_api\<close>\<close>

definition call_dashscope_api ::
  "env \<Rightarrow> world \<Rightarrow> ai_settings \<Rightarrow> chat_msg list \<Rightarrow> nat \<Rightarrow> real \<Rightarrow> (py_exn + pystr) \<times> world" where
  "call_dashscope_api e st settings messages max_tokens temperature =
     (case base_url settings of
        None \<Rightarrow> (Inl KeyError, st)
      | Some url \<Rightarrow>
          if \<not> sublist (ascii ''/apps/'') url then (Inl ValueError, st)
          else
            (let app_id = takeWhile (\<lambda>c. c \<noteq> 47) (split_last (ascii ''/apps/'') url);
                 request =
                   \<lparr>http_url = ascii ''https://dashscope.aliyuncs.com/api/v1/apps/'' @ app_id
                        @ ascii ''/completion'',
                     http_authorization = ascii ''Bearer '' @ format_opt (api_key settings),
                     http_prompt = dashscope_prompt messages,
                     http_max_tokens = max_tokens,
                     http_temperature = temperature,
                     http_thinking_disabled =
                       sublist glm_marker
                         (py_lower (unicode_lower e) (get_or (model_name settings) [])),
                     http_timeout = 30\<rparr>;
                 reply =
                   (case requests_post e (length (backend_calls st)) request of
                      Inl err \<Rightarrow> Inl err
                    | Inr response \<Rightarrow>
                        if status_code response \<noteq> 200
                        then Inl (HTTPStatusError (status_code response))
                        else (case output_text response of
                                Inl err \<Rightarrow> Inl err
                              | Inr None \<Rightarrow> Inl ResponseFormatError
                              | Inr (Some t) \<Rightarrow> Inr (py_strip t)))
             in (reply, st\<lparr>backend_calls := backend_calls st @
                     [\<lparr>call_request = DashScopePost request, call_reply = reply\<rparr>]\<rparr>)))"

text \<open>
  \<open>_call_openai_api\<close>. The reading of \<open>settings['model_name']\<close> stands before the
  \<open>try\<close>; an exception of the request is logged and raised again.
\<close>

definition call_openai_api ::
  "env \<Rightarrow> world \<Rightarrow> openai_client \<Rightarrow> ai_settings \<Rightarrow> chat_msg list \<Rightarrow> nat \<Rightarrow> real
     \<Rightarrow> (py_exn + pystr) \<times> world" where
  "call_openai_api e st client settings messages max_tokens temperature =
     (case model_name settings of
        None \<Rightarrow> (Inl KeyError, st)
      | Some model \<Rightarrow>
          (let request =
                 \<lparr>req_client = client, req_model = model, req_messages = messages,
                   req_max_tokens = max_tokens, req_temperature = temperature,
                   req_thinking_disabled =
                     sublist glm_marker (py_lower (unicode_lower e) model)\<rparr>;
               reply =
                 (case chat_completions_create e (length (backend_calls st)) request of
                    Inl err \<Rightarrow> Inl err
                  | Inr resp \<Rightarrow> Inr (extract_response_content resp))
           in (reply, st\<lparr>backend_calls := backend_calls st @
                   [\<lparr>call_request = ChatCompletion request, call_reply = reply\<rparr>]\<rparr>)))"

text \<open>\<open>is_ai_enabled\<close>\<close>

definition is_ai_enabled :: "world \<Rightarrow> pystr \<Rightarrow> bool" where
  "is_ai_enabled st cookie_id = ai_enabled (settings_table st cookie_id)"

section \<open>Intent classifier\<close>

definition intent_price :: pystr where "intent_price = ascii ''price''"
definition intent_tech :: pystr where "intent_tech = ascii ''tech''"
definition intent_default :: pystr where "intent_default = ascii ''default''"

text \<open>
  The end of \<open>detect_intent\<close>, from the response text to the intent. The Chinese
  keywords are U+4EF7 U+683C (price), U+6280 U+672F (technology) and U+5176 U+4ED6 (other);
  the full-width period is U+3002.
\<close>

definition normalize_intent :: "lower_table \<Rightarrow> pystr \<Rightarrow> pystr" where
  "normalize_intent lc response_text =
     py_strip (py_remove_char 0x3002 (py_remove_char 46 (py_lower lc response_text)))"

definition intent_of_response :: "lower_table \<Rightarrow> pystr \<Rightarrow> pystr" where
  "intent_of_response lc response_text =
     (let intent = normalize_intent lc response_text in
      if sublist (ascii ''price'') intent \<or> sublist [0x4EF7, 0x683C] intent then intent_price
      else if sublist (ascii ''tech'') intent \<or> sublist [0x6280, 0x672F] intent then intent_tech
      else if sublist (ascii ''default'') intent \<or> sublist [0x5176, 0x4ED6] intent
           then intent_default
      else intent_default)"

text \<open>
  \<open>json.loads(settings['custom_prompts']) if settings['custom_prompts'] else {}\<close>
\<close>

definition load_custom_prompts :: "env \<Rightarrow> ai_settings \<Rightarrow> py_exn + (pystr \<Rightarrow> pystr option)" where
  "load_custom_prompts e settings =
     (if truthy (custom_prompts settings) then json_loads e (format_opt (custom_prompts settings))
      else Inr (\<lambda>k. None))"

text \<open>
  The body of the \<open>try\<close> of \<open>detect_intent\<close>. The log line before the call reads
  \<open>settings['base_url']\<close> and \<open>settings['model_name']\<close>.
\<close>

definition detect_intent_try :: "env \<Rightarrow> world \<Rightarrow> pystr \<Rightarrow> pystr \<Rightarrow> (py_exn + pystr) \<times> world" where
  "detect_intent_try e st message cookie_id =
     (let settings = settings_table st cookie_id in
      if \<not> ai_enabled settings \<or> \<not> truthy (api_key settings) then (Inr intent_default, st)
      else
        (case load_custom_prompts e settings of
           Inl err \<Rightarrow> (Inl err, st)
         | Inr prompts \<Rightarrow>
             (case default_prompts st (ascii ''classify'') of
                None \<Rightarrow> (Inl KeyError, st)
              | Some default_prompt \<Rightarrow>
                  if base_url settings = None \<or> model_name settings = None
                  then (Inl KeyError, st)
                  else
                    (let classify_prompt = get_or (prompts (ascii ''classify'')) default_prompt;
                         messages =
                           [\<lparr>role = ascii ''system'', msg_content = classify_prompt\<rparr>,
                            \<lparr>role = ascii ''user'', msg_content = message\<rparr>]
                     in if is_dashscope_api (unicode_lower e) settings then
                          (case call_dashscope_api e st settings messages 100 (1 / 10) of
                             (Inl err, st1) \<Rightarrow> (Inl err, st1)
                           | (Inr response_text, st1) \<Rightarrow>
                               (Inr (intent_of_response (unicode_lower e) response_text), st1))
                        else
                          (case get_client e st cookie_id of
                             (None, st1) \<Rightarrow> (Inr intent_default, st1)
                           | (Some client, st1) \<Rightarrow>
                               (case call_openai_api e st1 client settings messages 1000 (1 / 10) of
                                  (Inl err, st2) \<Rightarrow> (Inl err, st2)
                                | (Inr response_text, st2) \<Rightarrow>
                                    (Inr (intent_of_response (unicode_lower e) response_text),
                                     st2)))))))"

text \<open>\<open>detect_intent\<close>: any exception of the body is logged and gives \<open>'default'\<close>.\<close>

definition detect_intent :: "env \<Rightarrow> world \<Rightarrow> pystr \<Rightarrow> pystr \<Rightarrow> pystr \<times> world" where
  "detect_intent e st message cookie_id =
     (case detect_intent_try e st message cookie_id of
        (Inl err, st1) \<Rightarrow> (intent_default, st1)
      | (Inr intent, st1) \<Rightarrow> (intent, st1))"

section \<open>Reply orchestrator\<close>

text \<open>
  \<open>item_info\<close>: the three keys the code reads, each with \<open>.get(key, default)\<close>
  (\<open>None\<close>: the key is absent).
\<close>

record item_info =
  title :: "pystr option"
  price :: "pystr option"
  desc :: "pystr option"

text \<open>
  The fixed refusal: U+62B1 U+6B49 U+FF0C ... U+54E6 U+FF01 (sorry, this price is already
  the best one, it cannot get any cheaper).
\<close>

definition refuse_reply :: pystr where
  "refuse_reply =
     [25265, 27465, 65292, 36825, 20010, 20215, 26684, 24050, 32463, 26159, 26368, 20248,
      24800, 30340, 20102, 65292, 19981, 33021, 20877, 20415, 23452, 20102, 21734, 65281]"

text \<open>
  Steps 7 to 9 of \<open>generate_reply\<close>: the description of the item, the last ten turns of
  the history and the user prompt. The Chinese labels are written by their code points:
  item title, item price, yuan, item description, unknown, none; then item information,
  conversation history, negotiation settings, current number of rounds, maximum rounds,
  maximum discount percentage, maximum discount amount, user message, and the request
  to write a reply from the above.
\<close>

definition item_desc :: "item_info \<Rightarrow> pystr" where
  "item_desc info =
     [21830, 21697, 26631, 39064, 58, 32] @ get_or (title info) [26410, 30693] @ [10]
     @ [21830, 21697, 20215, 26684, 58, 32] @ get_or (price info) [26410, 30693] @ [20803, 10]
     @ [21830, 21697, 25551, 36848, 58, 32] @ get_or (desc info) [26080]"

definition context_str :: "chat_msg list \<Rightarrow> pystr" where
  "context_str context =
     py_join [10] (map (\<lambda>msg. role msg @ ascii '': '' @ msg_content msg)
       (drop (length context - 10) context))"

definition user_prompt :: "ai_settings \<Rightarrow> item_info \<Rightarrow> chat_msg list \<Rightarrow> int \<Rightarrow> pystr \<Rightarrow> pystr" where
  "user_prompt settings info context bargain_count message =
     [21830, 21697, 20449, 24687, 65306, 10] @ item_desc info
     @ [10, 10, 23545, 35805, 21382, 21490, 65306, 10] @ context_str context
     @ [10, 10, 35758, 20215, 35774, 32622, 65306, 10, 45, 32, 24403, 21069, 35758, 20215,
        27425, 25968, 65306] @ str_int bargain_count
     @ [10, 45, 32, 26368, 22823, 35758, 20215, 36718, 25968, 65306]
     @ str_int (get_or (max_bargain_rounds settings) 3)
     @ [10, 45, 32, 26368, 22823, 20248, 24800, 30334, 20998, 27604, 65306]
     @ str_int (get_or (max_discount_percent settings) 10)
     @ [37, 10, 45, 32, 26368, 22823, 20248, 24800, 37329, 39069, 65306]
     @ str_int (get_or (max_discount_amount settings) 100)
     @ [20803, 10, 10, 29992, 25143, 28040, 24687, 65306] @ message
     @ [10, 10, 35831, 26681, 25454, 20197, 19978, 20449, 24687, 29983, 25104, 22238, 22797,
        65306]"

text \<open>
  The body of the \<open>try\<close> of \<open>generate_reply\<close>. \<open>increment_bargain_count\<close> does
  nothing (\<open>pass\<close>): the count is read from the saved rows.
\<close>

definition generate_reply_try ::
  "env \<Rightarrow> world \<Rightarrow> pystr \<Rightarrow> item_info \<Rightarrow> pystr \<Rightarrow> pystr \<Rightarrow> pystr \<Rightarrow> pystr
     \<Rightarrow> (py_exn + pystr option) \<times> world" where
  "generate_reply_try e st message info chat_id cookie_id user_id item_id =
     (let settings = settings_table st cookie_id;
          (intent, st1) = detect_intent e st message cookie_id;
          (context, st2) = get_conversation_context e st1 chat_id cookie_id 20;
          (bargain_count, st3) = get_bargain_count e st2 chat_id cookie_id
      in if intent = ascii ''price''
            \<and> bargain_count \<ge> get_or (max_bargain_rounds settings) 3 then
           (let st4 = save_conversation e st3 chat_id cookie_id user_id item_id
                        (ascii ''user'') message (Some intent);
                st5 = save_conversation e st4 chat_id cookie_id user_id item_id
                        (ascii ''assistant'') refuse_reply (Some intent)
            in (Inr (Some refuse_reply), st5))
         else
           (case load_custom_prompts e settings of
              Inl err \<Rightarrow> (Inl err, st3)
            | Inr prompts \<Rightarrow>
                (case default_prompts st3 intent of
                   None \<Rightarrow> (Inl KeyError, st3)
                 | Some default_prompt \<Rightarrow>
                     (let system_prompt = get_or (prompts intent) default_prompt;
                          messages =
                            [\<lparr>role = ascii ''system'', msg_content = system_prompt\<rparr>,
                             \<lparr>role = ascii ''user'',
                               msg_content =
                                 user_prompt settings info context bargain_count message\<rparr>];
                          (called, st4) =
                            (if is_dashscope_api (unicode_lower e) settings then
                               (case call_dashscope_api e st3 settings messages 2000 (7 / 10) of
                                  (r, st') \<Rightarrow> (Some r, st'))
                             else
                               (case get_client e st3 cookie_id of
                                  (None, st') \<Rightarrow> (None, st')
                                | (Some client, st') \<Rightarrow>
                                    (case call_openai_api e st' client settings messages
                                            2000 (7 / 10) of
                                       (r, st'') \<Rightarrow> (Some r, st''))))
                      in case called of
                           None \<Rightarrow> (Inr None, st4)
                         | Some (Inl err) \<Rightarrow> (Inl err, st4)
                         | Some (Inr reply) \<Rightarrow>
                             if reply = [] then (Inr None, st4)
                             else
                               (let st5 = save_conversation e st4 chat_id cookie_id user_id
                                            item_id (ascii ''user'') message (Some intent);
                                    st6 = save_conversation e st5 chat_id cookie_id user_id
                                            item_id (ascii ''assistant'') reply (Some intent)
                                in (Inr (Some reply), st6))))))"

text \<open>
  \<open>generate_reply\<close>: nothing is done for an account with AI disabled; any exception of
  the body is logged and gives \<open>None\<close>.
\<close>

definition generate_reply ::
  "env \<Rightarrow> world \<Rightarrow> pystr \<Rightarrow> item_info \<Rightarrow> pystr \<Rightarrow> pystr \<Rightarrow> pystr \<Rightarrow> pystr
     \<Rightarrow> pystr option \<times> world" where
  "generate_reply e st message info chat_id cookie_id user_id item_id =
     (if \<not> is_ai_enabled st cookie_id then (None, st)
      else
        (case generate_reply_try e st message info chat_id cookie_id user_id item_id of
           (Inl err, st1) \<Rightarrow> (None, st1)
         | (Inr reply, st1) \<Rightarrow> (reply, st1)))"

section \<open>Observations and example inputs\<close>

text \<open>
  The token ceiling of a logged backend call tells the two kinds of call apart: the
  classifier asks for 100 (DashScope) or 1000 tokens, the generation for 2000. The
  constructor of the request tells which protocol a call used.
  \<open>same_store\<close> says that a step left the database and the prompt table as they were.
\<close>

definition call_max_tokens :: "call_record \<Rightarrow> nat" where
  "call_max_tokens cr =
     (case call_request cr of
        ChatCompletion request \<Rightarrow> req_max_tokens request
      | DashScopePost request \<Rightarrow> http_max_tokens request)"

definition is_dashscope_call :: "call_record \<Rightarrow> bool" where
  "is_dashscope_call cr =
     (case call_request cr of ChatCompletion request \<Rightarrow> False | DashScopePost request \<Rightarrow> True)"

definition same_store :: "world \<Rightarrow> world \<Rightarrow> bool" where
  "same_store st st' \<longleftrightarrow>
     ai_conversations st' = ai_conversations st \<and> db_ops st' = db_ops st
     \<and> settings_table st' = settings_table st \<and> default_prompts st' = default_prompts st"

text \<open>
  Concrete inputs for the examples: an account with an OpenAI-compatible or DashScope
  configuration, an outside world whose chat backend answers the classifier with a
  given label and the generation with a given message, whose HTTP backend is down and
  whose JSON parser rejects its input, and an engine with empty caches and short prompts.
  The clock of the example shows small whole numbers of seconds, whose differences are
  floats, so the subtraction is exact there; the rows of the example were inserted at
  different times, so the newest comes first under \<open>ORDER BY created_at DESC\<close>.
\<close>

definition fixture_settings :: "bool \<Rightarrow> pystr \<Rightarrow> pystr \<Rightarrow> int option \<Rightarrow> ai_settings" where
  "fixture_settings enabled model url cap =
     \<lparr>ai_enabled = enabled, api_key = Some (ascii ''sk-test''), base_url = Some url,
       model_name = Some model, custom_prompts = None, max_bargain_rounds = cap,
       max_discount_percent = None, max_discount_amount = None\<rparr>"

definition fixture_env :: "pystr \<Rightarrow> message \<Rightarrow> (nat \<Rightarrow> bool) \<Rightarrow> env" where
  "fixture_env label answer faults =
     \<lparr>unicode_lower = (\<lambda>before c after. [c]),
       json_loads = (\<lambda>s. Inl JSONDecodeError),
       openai_init_fails = (\<lambda>key url. False),
       chat_completions_create = (\<lambda>n request.
          Inr \<lparr>choices =
                 [if req_max_tokens request = 1000
                  then \<lparr>content = Some label, reasoning_content = None\<rparr> else answer]\<rparr>),
       requests_post = (\<lambda>n request. Inl RequestError),
       time_time = (\<lambda>n. 1000 + real n),
       float_sub = (\<lambda>x y. x - y),
       db_fails = faults,
       created_at_desc = rev\<rparr>"

definition fixture_world :: "ai_settings \<Rightarrow> conversation_row list \<Rightarrow> world" where
  "fixture_world settings rows =
     \<lparr>clients = Map.empty, agents = Map.empty, client_last_used = Map.empty,
       default_prompts =
         [ascii ''classify'' \<mapsto> ascii ''classify the message'',
          ascii ''price'' \<mapsto> ascii ''negotiate'',
          ascii ''tech'' \<mapsto> ascii ''explain'',
          ascii ''default'' \<mapsto> ascii ''help''],
       settings_table = (\<lambda>cookie_id. settings),
       ai_conversations = rows, db_ops = 0, clock_ticks = 0, backend_calls = []\<rparr>"

definition price_turn :: "pystr \<Rightarrow> conversation_row" where
  "price_turn txt =
     \<lparr>row_cookie_id = ascii ''acct'', row_chat_id = ascii ''chat'',
       row_user_id = ascii ''buyer'', row_item_id = ascii ''item'',
       row_role = ascii ''user'', row_content = txt, row_intent = Some (ascii ''price'')\<rparr>"

definition gpt_account :: "bool \<Rightarrow> int option \<Rightarrow> ai_settings" where
  "gpt_account enabled cap =
     fixture_settings enabled (ascii ''gpt-4'') (ascii ''https://api.openai.com/v1'') cap"

definition dashscope_account :: ai_settings where
  "dashscope_account =
     fixture_settings True (ascii ''custom'')
       (ascii ''https://dashscope.aliyuncs.com/api/v1/apps/abc'') None"

definition ok_answer :: message where
  "ok_answer = \<lparr>content = Some (ascii ''ok''), reasoning_content = None\<rparr>"

definition thinking_only :: message where
  "thinking_only = \<lparr>content = Some [], reasoning_content = Some (ascii ''thinking'')\<rparr>"

definition three_rounds :: "conversation_row list" where
  "three_rounds = [price_turn (ascii ''a''), price_turn (ascii ''b''), price_turn (ascii ''c'')]"

text \<open>The message U+80FD U+4FBF U+5B9C U+70B9 U+5417 (can it be cheaper), and an item without details.\<close>

definition cheaper_message :: pystr where
  "cheaper_message = [33021, 20415, 23452, 28857, 21527]"

definition no_details :: item_info where
  "no_details = \<lparr>title = None, price = None, desc = None\<rparr>"

section \<open>Properties of the response normalizer\<close>

lemma think_open_eq: "think_open = [60, 116, 104, 105, 110, 107, 62]"
  by (simp add: think_open_def ascii_def)

lemma think_close_eq: "think_close = [60, 47, 116, 104, 105, 110, 107, 62]"
  by (simp add: think_close_def ascii_def)

lemma split_first_None_iff:
  "split_first sep s = None \<longleftrightarrow> \<not> sublist sep s"
  by (induction s) (auto simp: sublist_Cons_right)

lemma drop_append_le: "n \<le> length xs \<Longrightarrow> drop n (xs @ v) = drop n xs @ v"
  by simp

lemma split_first_append:
  "split_first sep u = Some (b, r) \<Longrightarrow> split_first sep (u @ v) = Some (b, r @ v)"
proof (induction u arbitrary: b)
  case Nil
  then show ?case by (cases v) (auto split: if_splits)
next
  case (Cons c cs)
  show ?case
  proof (cases "prefix sep (c # cs)")
    case True
    then have "prefix sep ((c # cs) @ v)" by (rule prefix_prefix)
    moreover from True have "length sep \<le> length (c # cs)" by (rule prefix_length_le)
    then have "drop (length sep) ((c # cs) @ v) = drop (length sep) (c # cs) @ v"
      by (rule drop_append_le)
    ultimately have "split_first sep ((c # cs) @ v) = Some ([], drop (length sep) (c # cs) @ v)"
      by (simp del: drop_Suc_Cons)
    moreover from Cons.prems True have "b = []" and "r = drop (length sep) (c # cs)"
      by simp_all
    ultimately show ?thesis by simp
  next
    case False
    with Cons.prems obtain b' where b': "split_first sep cs = Some (b', r)" "b = c # b'"
      by auto
    from Cons.prems have "sublist sep (c # cs)"
      using split_first_None_iff[of sep "c # cs"] by auto
    have "\<not> prefix sep ((c # cs) @ v)"
    proof
      assume "prefix sep ((c # cs) @ v)"
      then have "prefix sep (c # cs) \<or> prefix (c # cs) sep"
        by (metis prefix_def prefix_same_cases prefixI)
      with False have "prefix (c # cs) sep" by simp
      moreover from \<open>sublist sep (c # cs)\<close> have "length sep \<le> length (c # cs)"
        by (rule sublist_length_le)
      ultimately have "sep = c # cs"
        by (metis prefix_length_prefix prefix_order.eq_iff)
      with False show False by simp
    qed
    with b' Cons.IH[of b'] show ?thesis by simp
  qed
qed

text \<open>A pattern whose first character occurs nowhere else in it cannot overlap a copy of itself or of another such pattern\<close>

lemma suffix_head_unique:
  "x \<notin> set p \<Longrightarrow> suffix (x # q) (x # p) \<Longrightarrow> q = p"
  by (auto simp: suffix_def Cons_eq_append_conv)

lemma no_straddle:
  "x \<notin> set p \<Longrightarrow> xs1 @ xs2 = x # p \<Longrightarrow> xs1 \<noteq> [] \<Longrightarrow> prefix xs2 (x # v) \<Longrightarrow> xs2 = []"
  by (cases xs2; cases xs1) auto

lemma sublist_before_marker:
  assumes "x \<notin> set p" and "sublist (x # p) (u @ x # v)"
  shows "sublist (x # p) u \<or> sublist (x # p) (x # v)"
proof -
  from assms(2) consider "sublist (x # p) u" | "sublist (x # p) (x # v)"
    | xs1 xs2 where "x # p = xs1 @ xs2" "suffix xs1 u" "prefix xs2 (x # v)"
    unfolding sublist_append by blast
  then show ?thesis
  proof cases
    case 3
    show ?thesis
    proof (cases "xs1 = []")
      case True
      with 3 show ?thesis by auto
    next
      case False
      with 3 no_straddle[OF assms(1), of xs1 xs2 v] have "xs2 = []" by simp
      with 3 show ?thesis by auto
    qed
  qed simp_all
qed

lemma close_not_in_open_post:
  assumes "\<not> sublist think_close post"
  shows "\<not> sublist think_close (think_open @ post)"
proof
  assume "sublist think_close (think_open @ post)"
  then consider "sublist think_close think_open" | "sublist think_close post"
    | xs1 xs2 where "think_close = xs1 @ xs2" "suffix xs1 think_open" "prefix xs2 post"
    unfolding sublist_append by blast
  then show False
  proof cases
    case 1
    then show ?thesis using sublist_length_le[OF 1] by (simp add: think_open_eq think_close_eq)
  next
    case 2
    with assms show ?thesis by simp
  next
    case 3
    show ?thesis
    proof (cases xs1)
      case Nil
      with 3 assms show ?thesis by auto
    next
      case (Cons y ys)
      with 3(1) have y: "y = 60" by (simp add: think_close_eq)
      with 3(2) Cons have "ys = [116, 104, 105, 110, 107, 62]"
        using suffix_head_unique[of 60 "[116, 104, 105, 110, 107, 62]" ys]
        by (simp add: think_open_eq)
      with 3(1) Cons y show ?thesis by (simp add: think_close_eq)
    qed
  qed
qed

lemma close_not_straddling:
  assumes "\<not> sublist think_close u" and "\<not> sublist think_close post"
  shows "\<not> sublist think_close (u @ think_open @ post)"
proof
  assume a: "sublist think_close (u @ think_open @ post)"
  have "sublist think_close u \<or> sublist think_close (think_open @ post)"
    using sublist_before_marker[of 60 "[47, 116, 104, 105, 110, 107, 62]" u "[116, 104, 105, 110, 107, 62] @ post"] a
    by (simp add: think_open_eq think_close_eq)
  with assms close_not_in_open_post show False by blast
qed

lemma split_first_at_marker:
  assumes "x \<notin> set p" and "\<not> sublist (x # p) u"
  shows "split_first (x # p) (u @ (x # p) @ v) = Some (u, v)"
  using assms(2)
proof (induction u)
  case Nil
  then show ?case by simp
next
  case (Cons c cs)
  then have ns: "\<not> sublist (x # p) cs" and np: "\<not> prefix (x # p) (c # cs)"
    by (auto simp: sublist_Cons_right)
  have "\<not> prefix (x # p) ((c # cs) @ (x # p) @ v)"
  proof
    assume "prefix (x # p) ((c # cs) @ (x # p) @ v)"
    then consider "prefix (x # p) (c # cs)"
      | us where "x # p = (c # cs) @ us" "prefix us ((x # p) @ v)"
      unfolding prefix_append by blast
    then show False
    proof cases
      case 1
      with np show ?thesis by simp
    next
      case 2
      then have "us = []"
        using no_straddle[OF assms(1), of "c # cs" us "p @ v"] by simp
      with 2 np show ?thesis by simp
    qed
  qed
  with Cons.IH[OF ns] show ?case by simp
qed

lemma re_sub_think_no_close:
  "\<not> sublist think_close t \<Longrightarrow> re_sub_think t = t"
proof (induction t)
  case Nil
  then show ?case by simp
next
  case (Cons c cs)
  then have cs: "re_sub_think cs = cs"
    by (simp add: sublist_Cons_right)
  have "sublist (drop (length think_open) (c # cs)) (c # cs)"
    by (rule sublist_drop)
  with Cons.prems have "\<not> sublist think_close (drop (length think_open) (c # cs))"
    using sublist_order.order_trans by blast
  then have "split_first think_close (drop (length think_open) (c # cs)) = None"
    by (simp add: split_first_None_iff)
  with cs show ?case by simp
qed

lemma close_not_after_open_tail:
  assumes "prefix think_open (c # cs)"
    and "\<not> sublist think_close (drop (length think_open) (c # cs))"
  shows "\<not> sublist think_close cs"
proof -
  from assms(1) obtain r where r: "c # cs = think_open @ r"
    by (auto simp: prefix_def)
  then have dr: "drop (length think_open) (c # cs) = r"
    by (metis append_eq_conv_conj)
  from r have cs: "cs = [116, 104, 105, 110, 107, 62] @ r"
    by (simp add: think_open_eq)
  from assms(2) dr have "\<not> sublist think_close (think_open @ r)"
    using close_not_in_open_post by simp
  moreover have "sublist cs (think_open @ r)"
    unfolding cs think_open_eq by (simp add: sublist_Cons_right)
  ultimately show ?thesis
    using sublist_order.order_trans by blast
qed

lemma re_sub_think_remove_think_blocks:
  "re_sub_think s = remove_think_blocks s"
proof (induction s rule: re_sub_think.induct)
  case 1
  show ?case by (simp add: remove_think_blocks.simps[of "[]"] think_open_eq)
next
  case (2 c cs)
  show ?case
  proof (cases "prefix think_open (c # cs)")
    case True
    then have so: "split_first think_open (c # cs) = Some ([], drop (length think_open) (c # cs))"
      by simp
    show ?thesis
    proof (cases "split_first think_close (drop (length think_open) (c # cs))")
      case None
      then have "\<not> sublist think_close cs"
        using close_not_after_open_tail[OF True] by (simp add: split_first_None_iff)
      then have "re_sub_think cs = cs" by (rule re_sub_think_no_close)
      with True None so show ?thesis
        by (simp add: remove_think_blocks.simps[of "c # cs"])
    next
      case (Some br)
      obtain body rest where br: "br = (body, rest)" by (cases br)
      from "2.IH"(2)[OF True Some[unfolded br] refl] True Some so br show ?thesis
        by (simp add: remove_think_blocks.simps[of "c # cs"])
    qed
  next
    case False
    from "2.IH"(3)[OF False] have ih: "re_sub_think cs = remove_think_blocks cs" .
    show ?thesis
    proof (cases "split_first think_open cs")
      case None
      with False ih show ?thesis
        by (simp add: remove_think_blocks.simps[of "c # cs"] remove_think_blocks.simps[of cs])
    next
      case (Some ar)
      obtain a rest where ar: "ar = (a, rest)" by (cases ar)
      with False ih Some show ?thesis
        by (simp add: remove_think_blocks.simps[of "c # cs"] remove_think_blocks.simps[of cs]
            split: option.splits)
    qed
  qed
qed

lemma remove_think_blocks_unclosed:
  assumes "\<not> sublist think_close post"
  shows "remove_think_blocks (pre @ think_open @ post) = remove_think_blocks pre @ think_open @ post"
proof (induction pre rule: remove_think_blocks.induct)
  case (1 s)
  have nc: "split_first think_close post = None"
    using assms by (simp add: split_first_None_iff)
  show ?case
  proof (cases "split_first think_open s")
    case None
    then have "\<not> sublist think_open s" by (simp add: split_first_None_iff)
    then have "split_first think_open (s @ think_open @ post) = Some (s, post)"
      using split_first_at_marker[of 60 "[116, 104, 105, 110, 107, 62]" s post]
      by (simp add: think_open_eq)
    with None nc show ?thesis
      by (simp add: remove_think_blocks.simps[of s] remove_think_blocks.simps[of "s @ think_open @ post"])
  next
    case (Some ar)
    obtain a rest where ar: "ar = (a, rest)" by (cases ar)
    from Some ar have so: "split_first think_open (s @ think_open @ post) = Some (a, rest @ think_open @ post)"
      using split_first_append by simp
    show ?thesis
    proof (cases "split_first think_close rest")
      case None
      then have "\<not> sublist think_close (rest @ think_open @ post)"
        using close_not_straddling assms by (simp add: split_first_None_iff)
      then have "split_first think_close (rest @ think_open @ post) = None"
        by (simp add: split_first_None_iff)
      with None so Some ar show ?thesis
        by (simp add: remove_think_blocks.simps[of s] remove_think_blocks.simps[of "s @ think_open @ post"])
    next
      case (Some ba)
      obtain body after where ba: "ba = (body, after)" by (cases ba)
      from Some ba have sc: "split_first think_close (rest @ think_open @ post) = Some (body, after @ think_open @ post)"
        using split_first_append by simp
      from "1.IH"[OF \<open>split_first think_open s = Some ar\<close> ar[symmetric] Some ba[symmetric]]
      have "remove_think_blocks (after @ think_open @ post) = remove_think_blocks after @ think_open @ post" .
      with sc so Some ba ar \<open>split_first think_open s = Some ar\<close> show ?thesis
        by (simp add: remove_think_blocks.simps[of s] remove_think_blocks.simps[of "s @ think_open @ post"])
    qed
  qed
qed

lemma py_strip_around:
  assumes "\<not> py_isspace a" and "\<not> py_isspace b"
  shows "py_strip (x @ (a # mid @ [b]) @ y) = py_lstrip x @ (a # mid @ [b]) @ py_rstrip y"
proof -
  have l: "py_lstrip (x @ (a # mid @ [b]) @ y) = py_lstrip x @ (a # mid @ [b]) @ y"
    using assms(1) by (simp add: py_lstrip_def dropWhile_append)
  have "dropWhile py_isspace (rev y @ (b # rev mid @ [a]) @ rev (py_lstrip x))
      = dropWhile py_isspace (rev y) @ (b # rev mid @ [a]) @ rev (py_lstrip x)"
    using assms(2) by (simp add: dropWhile_append)
  then have "py_rstrip (py_lstrip x @ (a # mid @ [b]) @ y) = py_lstrip x @ (a # mid @ [b]) @ py_rstrip y"
    by (simp add: py_rstrip_def)
  with l show ?thesis by (simp add: py_strip_def)
qed

lemma py_strip_think_open:
  "py_strip (x @ think_open @ y) = py_lstrip x @ think_open @ py_rstrip y"
  using py_strip_around[of 60 62 x "[116, 104, 105, 110, 107]" y]
  by (simp add: think_open_eq py_isspace_def)

lemma extract_response_content_first:
  "choices r = m # ms \<Longrightarrow> content m = Some c \<Longrightarrow> c \<noteq> [] \<Longrightarrow>
   extract_response_content r =
     (if sublist think_open c then py_strip (remove_think_blocks c) else py_strip c)"
  by (simp add: extract_response_content_def extract_response_content_try_def Let_def
      clean_thinking_content_def re_sub_think_remove_think_blocks split: option.splits list.splits)

lemma remove_think_blocks_pair:
  "split_first think_open s = Some (a, rest) \<Longrightarrow> split_first think_close rest = Some (b, c) \<Longrightarrow>
   remove_think_blocks s = a @ remove_think_blocks c"
  by (simp add: remove_think_blocks.simps[of s])

lemma remove_think_blocks_no_open:
  "split_first think_open s = None \<Longrightarrow> remove_think_blocks s = s"
  by (simp add: remove_think_blocks.simps[of s])

lemmas py_strip_eval = py_strip_def py_lstrip_def py_rstrip_def py_isspace_def ascii_def

lemma spec_example_cleaned: "py_strip (remove_think_blocks (ascii ''<think>reasoning here</think>final answer'')) = ascii ''final answer''"
proof -
  have 1: "split_first think_open (ascii ''<think>reasoning here</think>final answer'') = Some ([], ascii ''reasoning here</think>final answer'')"
    by code_simp
  have 2: "split_first think_close (ascii ''reasoning here</think>final answer'') = Some (ascii ''reasoning here'', ascii ''final answer'')"
    by code_simp
  have 3: "split_first think_open (ascii ''final answer'') = None"
    by code_simp
  have "py_strip (ascii ''final answer'') = ascii ''final answer''"
    by (simp add: py_strip_eval)
  then show ?thesis
    using remove_think_blocks_pair[OF 1 2] remove_think_blocks_no_open[OF 3] by simp
qed

lemma spec_example_has_marker: "sublist think_open (ascii ''<think>reasoning here</think>final answer'')"
  by code_simp

text \<open>
  C2. The normalizer on every shape of response: with no candidate the exception is caught
  and the result is \<open>''\<close>; with \<open>content\<close> empty or \<open>None\<close> the result is \<open>''\<close>,
  whatever \<open>reasoning_content\<close> holds; non-empty content with a \<open><think>\<close> marker gives
  the content with every deliberation block removed, trimmed; non-empty content without
  the marker gives the trimmed content. So \<open><think>reasoning here</think>final answer\<close>
  gives \<open>final answer\<close> and \<open>plain answer\<close> gives \<open>plain answer\<close>. The function is total:
  it returns a string on every response.
\<close>

theorem extract_response_content_cases:
  "(extract_response_content_try r = Inl err \<longrightarrow> extract_response_content r = [])
   \<and> (choices r = [] \<longrightarrow> extract_response_content r = [])
   \<and> (choices r = m # ms \<and> (content m = None \<or> content m = Some []) \<longrightarrow>
        extract_response_content r = [])
   \<and> (choices r = m # ms \<and> content m = Some c \<and> c \<noteq> [] \<and> sublist think_open c \<longrightarrow>
        extract_response_content r = py_strip (remove_think_blocks c))
   \<and> (choices r = m # ms \<and> content m = Some c \<and> c \<noteq> [] \<and> \<not> sublist think_open c \<longrightarrow>
        extract_response_content r = py_strip c)
   \<and> (choices r = m # ms \<and>
        content m = Some (ascii ''<think>reasoning here</think>final answer'') \<longrightarrow>
        extract_response_content r = ascii ''final answer'')
   \<and> (choices r = m # ms \<and> content m = Some (ascii ''plain answer'') \<longrightarrow>
        extract_response_content r = ascii ''plain answer'')"
proof -
  have z: "extract_response_content_try r = Inl err \<longrightarrow> extract_response_content r = []"
    by (simp add: extract_response_content_def)
  have a: "choices r = [] \<longrightarrow> extract_response_content r = []"
    by (simp add: extract_response_content_def extract_response_content_try_def)
  have b: "choices r = m # ms \<and> (content m = None \<or> content m = Some []) \<longrightarrow>
        extract_response_content r = []"
    by (auto simp: extract_response_content_def extract_response_content_try_def
        split: option.splits list.splits)
  have c: "choices r = m # ms \<and> content m = Some c \<and> c \<noteq> [] \<and> sublist think_open c \<longrightarrow>
        extract_response_content r = py_strip (remove_think_blocks c)"
    by (simp add: extract_response_content_first)
  have d: "choices r = m # ms \<and> content m = Some c \<and> c \<noteq> [] \<and> \<not> sublist think_open c \<longrightarrow>
        extract_response_content r = py_strip c"
    by (simp add: extract_response_content_first)
  have e: "choices r = m # ms \<and>
        content m = Some (ascii ''<think>reasoning here</think>final answer'') \<longrightarrow>
        extract_response_content r = ascii ''final answer''"
    using extract_response_content_first[of r m ms "ascii ''<think>reasoning here</think>final answer''"]
      spec_example_cleaned spec_example_has_marker by (auto simp: think_open_eq ascii_def)
  have f1: "\<not> sublist think_open (ascii ''plain answer'')" by code_simp
  have f2: "py_strip (ascii ''plain answer'') = ascii ''plain answer''" by (simp add: py_strip_eval)
  have f: "choices r = m # ms \<and> content m = Some (ascii ''plain answer'') \<longrightarrow>
        extract_response_content r = ascii ''plain answer''"
    using extract_response_content_first[of r m ms "ascii ''plain answer''"] f1 f2
    by (auto simp: ascii_def)
  from z a b c d e f show ?thesis by blast
qed

theorem extract_response_content_cases_witness:
  "extract_response_content \<lparr>choices = []\<rparr> = []
   \<and> extract_response_content
        \<lparr>choices = [\<lparr>content = Some [], reasoning_content = Some (ascii ''thinking'')\<rparr>]\<rparr> = []
   \<and> extract_response_content
        \<lparr>choices = [\<lparr>content = None, reasoning_content = None\<rparr>]\<rparr> = []
   \<and> sublist think_open (ascii ''<think>a</think> b '')
   \<and> extract_response_content
        \<lparr>choices = [\<lparr>content = Some (ascii ''<think>a</think> b ''),
                      reasoning_content = None\<rparr>]\<rparr> = ascii ''b''
   \<and> \<not> sublist think_open (ascii '' ok '')
   \<and> extract_response_content
        \<lparr>choices = [\<lparr>content = Some (ascii '' ok ''), reasoning_content = None\<rparr>]\<rparr>
       = ascii ''ok''"
proof -
  have 1: "split_first think_open (ascii ''<think>a</think> b '') = Some ([], ascii ''a</think> b '')"
    by code_simp
  have 2: "split_first think_close (ascii ''a</think> b '') = Some (ascii ''a'', ascii '' b '')"
    by code_simp
  have 3: "split_first think_open (ascii '' b '') = None"
    by code_simp
  have "remove_think_blocks (ascii ''<think>a</think> b '') = ascii '' b ''"
    using remove_think_blocks_pair[OF 1 2] remove_think_blocks_no_open[OF 3] by simp
  then have v: "py_strip (remove_think_blocks (ascii ''<think>a</think> b '')) = ascii ''b''"
    by (simp add: py_strip_eval)
  have w: "py_strip (ascii '' ok '') = ascii ''ok''"
    by (simp add: py_strip_eval)
  have s1: "sublist think_open (ascii ''<think>a</think> b '')" by code_simp
  have s2: "\<not> sublist think_open (ascii '' ok '')" by code_simp
  have n1: "ascii ''<think>a</think> b '' \<noteq> []" and n2: "ascii '' ok '' \<noteq> []"
    by (simp_all add: ascii_def)
  show ?thesis
    using
      extract_response_content_cases[where r = "\<lparr>choices = []\<rparr>"]
      extract_response_content_cases[where
        r = "\<lparr>choices = [\<lparr>content = Some [], reasoning_content = Some (ascii ''thinking'')\<rparr>]\<rparr>"
        and m = "\<lparr>content = Some [], reasoning_content = Some (ascii ''thinking'')\<rparr>"
        and ms = "[]"]
      extract_response_content_cases[where
        r = "\<lparr>choices = [\<lparr>content = None, reasoning_content = None\<rparr>]\<rparr>"
        and m = "\<lparr>content = None, reasoning_content = None\<rparr>" and ms = "[]"]
      extract_response_content_cases[where
        r = "\<lparr>choices = [\<lparr>content = Some (ascii ''<think>a</think> b ''),
                      reasoning_content = None\<rparr>]\<rparr>"
        and m = "\<lparr>content = Some (ascii ''<think>a</think> b ''), reasoning_content = None\<rparr>"
        and ms = "[]" and c = "ascii ''<think>a</think> b ''"]
      extract_response_content_cases[where
        r = "\<lparr>choices = [\<lparr>content = Some (ascii '' ok ''), reasoning_content = None\<rparr>]\<rparr>"
        and m = "\<lparr>content = Some (ascii '' ok ''), reasoning_content = None\<rparr>" and ms = "[]"
        and c = "ascii '' ok ''"]
      v w s1 s2 n1 n2
    by simp
qed

text \<open>
  C9. When the content holds a \<open><think>\<close> marker and no \<open></think>\<close> stands anywhere after
  it, the marker and the text after it are kept: the reply is the cleaned text before the
  marker (left-trimmed), the marker itself, and the text after it (right-trimmed). The
  reply therefore still contains the literal \<open><think>\<close>.
\<close>

theorem unclosed_think_marker_kept:
  assumes "choices r = m # ms" and "content m = Some (pre @ think_open @ post)"
    and "\<not> sublist think_close post"
  shows "extract_response_content r = py_lstrip (remove_think_blocks pre) @ think_open @ py_rstrip post
    \<and> sublist think_open (extract_response_content r)"
proof -
  have "pre @ think_open @ post \<noteq> []" by (simp add: think_open_eq)
  moreover have "sublist think_open (pre @ think_open @ post)" by simp
  ultimately have "extract_response_content r = py_strip (remove_think_blocks (pre @ think_open @ post))"
    using extract_response_content_first[OF assms(1,2)] by simp
  also have "\<dots> = py_strip (remove_think_blocks pre @ think_open @ post)"
    using remove_think_blocks_unclosed[OF assms(3)] by simp
  also have "\<dots> = py_lstrip (remove_think_blocks pre) @ think_open @ py_rstrip post"
    by (rule py_strip_think_open)
  finally show ?thesis by simp
qed

theorem unclosed_think_marker_kept_witness:
  "extract_response_content \<lparr>choices = [\<lparr>content = Some (ascii ''<think>a</think> ok <think>hmm  ''), reasoning_content = None\<rparr>]\<rparr>
     = ascii ''ok <think>hmm''
   \<and> \<not> sublist think_close (ascii ''hmm  '')"
proof -
  have p: "ascii ''<think>a</think> ok <think>hmm  '' = ascii ''<think>a</think> ok '' @ think_open @ ascii ''hmm  ''"
    by code_simp
  have n: "\<not> sublist think_close (ascii ''hmm  '')" by code_simp
  have 1: "split_first think_open (ascii ''<think>a</think> ok '') = Some ([], ascii ''a</think> ok '')"
    by code_simp
  have 2: "split_first think_close (ascii ''a</think> ok '') = Some (ascii ''a'', ascii '' ok '')"
    by code_simp
  have 3: "split_first think_open (ascii '' ok '') = None"
    by code_simp
  have "remove_think_blocks (ascii ''<think>a</think> ok '') = ascii '' ok ''"
    using remove_think_blocks_pair[OF 1 2] remove_think_blocks_no_open[OF 3] by simp
  then have v: "py_lstrip (remove_think_blocks (ascii ''<think>a</think> ok '')) @ think_open @ py_rstrip (ascii ''hmm  '') = ascii ''ok <think>hmm''"
    by (simp add: py_strip_eval think_open_eq)
  show ?thesis
    using unclosed_think_marker_kept[of "\<lparr>choices = [\<lparr>content = Some (ascii ''<think>a</think> ok <think>hmm  ''), reasoning_content = None\<rparr>]\<rparr>"
        "\<lparr>content = Some (ascii ''<think>a</think> ok <think>hmm  ''), reasoning_content = None\<rparr>" "[]"
        "ascii ''<think>a</think> ok ''" "ascii ''hmm  ''"] p n v
    by simp
qed

section \<open>Effects of the steps\<close>

lemma same_store_refl [simp]: "same_store st st"
  by (simp add: same_store_def)

lemma same_store_trans: "same_store a b \<Longrightarrow> same_store b c \<Longrightarrow> same_store a c"
  by (simp add: same_store_def)

lemma get_client_effect:
  "get_client e st c = (r, st') \<Longrightarrow> same_store st st' \<and> backend_calls st' = backend_calls st"
  by (auto simp: get_client_def Let_def same_store_def split: option.splits if_splits)

lemma call_openai_api_effect:
  assumes "call_openai_api e st cl s msgs mt temp = (r, st')"
  shows "same_store st st'"
    and "(backend_calls st' = backend_calls st \<and> r = Inl KeyError)
       \<or> (\<exists>cr. backend_calls st' = backend_calls st @ [cr] \<and> call_reply cr = r
             \<and> call_max_tokens cr = mt \<and> \<not> is_dashscope_call cr)"
  using assms
  by (auto simp: call_openai_api_def Let_def same_store_def call_max_tokens_def
      is_dashscope_call_def split: option.splits)

lemma call_dashscope_api_effect:
  assumes "call_dashscope_api e st s msgs mt temp = (r, st')"
  shows "same_store st st'"
    and "(backend_calls st' = backend_calls st \<and> (r = Inl KeyError \<or> r = Inl ValueError))
       \<or> (\<exists>cr. backend_calls st' = backend_calls st @ [cr] \<and> call_reply cr = r
             \<and> call_max_tokens cr = mt \<and> is_dashscope_call cr)"
  using assms
  by (auto simp: call_dashscope_api_def Let_def same_store_def call_max_tokens_def
      is_dashscope_call_def split: option.splits if_splits)

lemma detect_intent_try_effect:
  assumes "detect_intent_try e st m c = (r, st')"
  shows "same_store st st'"
    and "(backend_calls st' = backend_calls st \<and> (r = Inr intent_default \<or> (\<exists>err. r = Inl err)))
       \<or> (\<exists>cr. backend_calls st' = backend_calls st @ [cr]
             \<and> (call_max_tokens cr = 100 \<or> call_max_tokens cr = 1000)
             \<and> (is_dashscope_call cr
                  \<longleftrightarrow> is_dashscope_api (unicode_lower e) (settings_table st c))
             \<and> r = (case call_reply cr of Inl err \<Rightarrow> Inl err
                     | Inr t \<Rightarrow> Inr (intent_of_response (unicode_lower e) t)))"
proof -
  let ?s = "settings_table st c"
  show "same_store st st'"
    using assms
    by (auto simp: detect_intent_try_def Let_def split: if_splits sum.splits option.splits prod.splits
        dest!: call_dashscope_api_effect(1) call_openai_api_effect(1) get_client_effect
        intro: same_store_trans)
  show "(backend_calls st' = backend_calls st \<and> (r = Inr intent_default \<or> (\<exists>err. r = Inl err)))
       \<or> (\<exists>cr. backend_calls st' = backend_calls st @ [cr]
             \<and> (call_max_tokens cr = 100 \<or> call_max_tokens cr = 1000)
             \<and> (is_dashscope_call cr
                  \<longleftrightarrow> is_dashscope_api (unicode_lower e) (settings_table st c))
             \<and> r = (case call_reply cr of Inl err \<Rightarrow> Inl err
                     | Inr t \<Rightarrow> Inr (intent_of_response (unicode_lower e) t)))"
    using assms
    apply (auto simp: detect_intent_try_def Let_def split: if_splits sum.splits option.splits prod.splits
        dest!: call_dashscope_api_effect(2) call_openai_api_effect(2) get_client_effect)
    done
qed

lemma detect_intent_effect:
  assumes "detect_intent e st m c = (i, st')"
  shows "same_store st st'"
    and "(backend_calls st' = backend_calls st \<and> i = intent_default)
       \<or> (\<exists>cr. backend_calls st' = backend_calls st @ [cr]
             \<and> (call_max_tokens cr = 100 \<or> call_max_tokens cr = 1000)
             \<and> (is_dashscope_call cr
                  \<longleftrightarrow> is_dashscope_api (unicode_lower e) (settings_table st c))
             \<and> i = (case call_reply cr of Inl err \<Rightarrow> intent_default
                     | Inr t \<Rightarrow> intent_of_response (unicode_lower e) t))"
proof -
  obtain r where r: "detect_intent_try e st m c = (r, st')"
    using assms by (auto simp: detect_intent_def split: prod.splits sum.splits)
  then have i: "i = (case r of Inl err \<Rightarrow> intent_default | Inr x \<Rightarrow> x)"
    using assms by (auto simp: detect_intent_def split: sum.splits)
  show "same_store st st'" using detect_intent_try_effect(1)[OF r] .
  show "(backend_calls st' = backend_calls st \<and> i = intent_default)
       \<or> (\<exists>cr. backend_calls st' = backend_calls st @ [cr]
             \<and> (call_max_tokens cr = 100 \<or> call_max_tokens cr = 1000)
             \<and> (is_dashscope_call cr
                  \<longleftrightarrow> is_dashscope_api (unicode_lower e) (settings_table st c))
             \<and> i = (case call_reply cr of Inl err \<Rightarrow> intent_default
                     | Inr t \<Rightarrow> intent_of_response (unicode_lower e) t))"
    using detect_intent_try_effect(2)[OF r] i by (auto split: sum.splits)
qed

lemma get_conversation_context_effect:
  "get_conversation_context e st chat c l = (ctx, st') \<Longrightarrow> st' = st\<lparr>db_ops := Suc (db_ops st)\<rparr>"
  by (auto simp: get_conversation_context_def Let_def split: if_splits)

lemma get_bargain_count_effect:
  "get_bargain_count e st chat c = (n, st') \<Longrightarrow> st' = st\<lparr>db_ops := Suc (db_ops st)\<rparr>"
  by (auto simp: get_bargain_count_def Let_def split: if_splits)

lemma save_conversation_effect:
  "backend_calls (save_conversation e st chat c u it rl txt tag) = backend_calls st"
  "db_ops (save_conversation e st chat c u it rl txt tag) = Suc (db_ops st)"
  "ai_conversations (save_conversation e st chat c u it rl txt tag) =
     (if db_fails e (db_ops st) then ai_conversations st
      else ai_conversations st @
        [\<lparr>row_cookie_id = c, row_chat_id = chat, row_user_id = u, row_item_id = it,
          row_role = rl, row_content = txt, row_intent = tag\<rparr>])"
  by (simp_all add: save_conversation_def Let_def)

lemma generate_reply_try_refuse:
  assumes "detect_intent e st m c = (i, st1)"
    and "get_conversation_context e st1 chat c 20 = (ctx, st2)"
    and "get_bargain_count e st2 chat c = (n, st3)"
    and "i = ascii ''price''" and "n \<ge> get_or (max_bargain_rounds (settings_table st c)) 3"
  shows "generate_reply_try e st m info chat c u it =
     (Inr (Some refuse_reply),
      save_conversation e
        (save_conversation e st3 chat c u it (ascii ''user'') m (Some (ascii ''price'')))
        chat c u it (ascii ''assistant'') refuse_reply (Some (ascii ''price'')))"
  using assms by (simp add: generate_reply_try_def Let_def)

lemma generation_call_effect:
  assumes "(if dash then (case call_dashscope_api e st3 s msgs 2000 t of (r, st') \<Rightarrow> (Some r, st'))
            else (case get_client e st3 c of
                    (None, st') \<Rightarrow> (None, st')
                  | (Some client, st') \<Rightarrow>
                      (case call_openai_api e st' client s msgs 2000 t of
                         (r, st'') \<Rightarrow> (Some r, st'')))) = (called, st4)"
  shows "same_store st3 st4"
    and "(backend_calls st4 = backend_calls st3 \<and> (called = None \<or> (\<exists>err. called = Some (Inl err))))
       \<or> (\<exists>cr res. backend_calls st4 = backend_calls st3 @ [cr] \<and> called = Some res
             \<and> call_reply cr = res \<and> call_max_tokens cr = 2000
             \<and> (is_dashscope_call cr \<longleftrightarrow> dash))"
proof -
  show "same_store st3 st4"
  proof (cases dash)
    case True
    with assms show ?thesis
      by (auto split: prod.splits dest: call_dashscope_api_effect(1))
  next
    case False
    with assms show ?thesis
      by (auto split: prod.splits option.splits
          dest!: call_openai_api_effect(1) get_client_effect intro: same_store_trans)
  qed
  show "(backend_calls st4 = backend_calls st3 \<and> (called = None \<or> (\<exists>err. called = Some (Inl err))))
       \<or> (\<exists>cr res. backend_calls st4 = backend_calls st3 @ [cr] \<and> called = Some res
             \<and> call_reply cr = res \<and> call_max_tokens cr = 2000
             \<and> (is_dashscope_call cr \<longleftrightarrow> dash))"
  proof (cases dash)
    case True
    then obtain r where "call_dashscope_api e st3 s msgs 2000 t = (r, st4)" "called = Some r"
      using assms by (auto split: prod.splits)
    then show ?thesis
      using call_dashscope_api_effect(2)[of e st3 s msgs 2000 t r st4] True by auto
  next
    case False
    obtain cl st' where g: "get_client e st3 c = (cl, st')" by (cases "get_client e st3 c")
    then have b: "backend_calls st' = backend_calls st3"
      using get_client_effect by blast
    show ?thesis
    proof (cases cl)
      case None
      with False g assms b show ?thesis by auto
    next
      case (Some client)
      then obtain r where "call_openai_api e st' client s msgs 2000 t = (r, st4)" "called = Some r"
        using False g assms by (auto split: prod.splits)
      then show ?thesis
        using call_openai_api_effect(2)[of e st' client s msgs 2000 t r st4] b False by auto
    qed
  qed
qed

lemma generate_reply_try_proceed:
  assumes "detect_intent e st m c = (i, st1)"
    and "get_conversation_context e st1 chat c 20 = (ctx, st2)"
    and "get_bargain_count e st2 chat c = (n, st3)"
    and "\<not> (i = ascii ''price'' \<and> n \<ge> get_or (max_bargain_rounds (settings_table st c)) 3)"
    and "generate_reply_try e st m info chat c u it = (r, st')"
  shows "((r = Inr None \<or> (\<exists>err. r = Inl err)) \<and> same_store st3 st'
          \<and> (backend_calls st' = backend_calls st3
              \<or> (\<exists>cr. backend_calls st' = backend_calls st3 @ [cr] \<and> call_max_tokens cr = 2000
                    \<and> (is_dashscope_call cr
                         \<longleftrightarrow> is_dashscope_api (unicode_lower e) (settings_table st c))
                    \<and> (call_reply cr = Inr [] \<or> (\<exists>err. call_reply cr = Inl err)))))
       \<or> (\<exists>reply cr st4. reply \<noteq> [] \<and> r = Inr (Some reply) \<and> same_store st3 st4
             \<and> backend_calls st4 = backend_calls st3 @ [cr] \<and> call_reply cr = Inr reply
             \<and> call_max_tokens cr = 2000
             \<and> (is_dashscope_call cr
                  \<longleftrightarrow> is_dashscope_api (unicode_lower e) (settings_table st c))
             \<and> st' = save_conversation e
                  (save_conversation e st4 chat c u it (ascii ''user'') m (Some i))
                  chat c u it (ascii ''assistant'') reply (Some i))"
proof -
  have nf: "(i = ascii ''price'' \<and> get_or (max_bargain_rounds (settings_table st c)) 3 \<le> n) = False"
    using assms(4) by simp
  have base: "generate_reply_try e st m info chat c u it =
     (case load_custom_prompts e (settings_table st c) of
        Inl err \<Rightarrow> (Inl err, st3)
      | Inr prompts \<Rightarrow>
          (case default_prompts st3 i of
             None \<Rightarrow> (Inl KeyError, st3)
           | Some default_prompt \<Rightarrow>
               (case (if is_dashscope_api (unicode_lower e) (settings_table st c) then
                    (case call_dashscope_api e st3 (settings_table st c)
                        [\<lparr>role = ascii ''system'', msg_content = get_or (prompts i) default_prompt\<rparr>,
                         \<lparr>role = ascii ''user'',
                           msg_content = user_prompt (settings_table st c) info ctx n m\<rparr>]
                        2000 (7 / 10) of
                       (r, st') \<Rightarrow> (Some r, st'))
                  else
                    (case get_client e st3 c of
                       (None, st') \<Rightarrow> (None, st')
                     | (Some client, st') \<Rightarrow>
                         (case call_openai_api e st' client (settings_table st c)
                                [\<lparr>role = ascii ''system'', msg_content = get_or (prompts i) default_prompt\<rparr>,
                                 \<lparr>role = ascii ''user'',
                                   msg_content = user_prompt (settings_table st c) info ctx n m\<rparr>]
                                 2000 (7 / 10) of
                            (r, st'') \<Rightarrow> (Some r, st'')))) of
                  (called, st4) \<Rightarrow>
                    (case called of
                       None \<Rightarrow> (Inr None, st4)
                     | Some (Inl err) \<Rightarrow> (Inl err, st4)
                     | Some (Inr reply) \<Rightarrow>
                         if reply = [] then (Inr None, st4)
                         else (Inr (Some reply),
                               save_conversation e
                                 (save_conversation e st4 chat c u it (ascii ''user'') m (Some i))
                                 chat c u it (ascii ''assistant'') reply (Some i))))))"
    unfolding generate_reply_try_def assms(1-3) Let_def prod.case nf if_False ..
  show ?thesis
  proof (cases "load_custom_prompts e (settings_table st c)")
  case (Inl err)
  with assms(5) base show ?thesis
    by auto
next
  case (Inr prompts)
  show ?thesis
  proof (cases "default_prompts st3 i")
    case None
    with Inr assms(5) base show ?thesis
      by auto
  next
    case (Some default_prompt)
    let ?msgs = "[\<lparr>role = ascii ''system'', msg_content = get_or (prompts i) default_prompt\<rparr>,
                  \<lparr>role = ascii ''user'',
                    msg_content = user_prompt (settings_table st c) info ctx n m\<rparr>]"
    let ?call = "(if is_dashscope_api (unicode_lower e) (settings_table st c) then
                    (case call_dashscope_api e st3 (settings_table st c) ?msgs 2000 (7 / 10) of
                       (r, st') \<Rightarrow> (Some r, st'))
                  else
                    (case get_client e st3 c of
                       (None, st') \<Rightarrow> (None, st')
                     | (Some client, st') \<Rightarrow>
                         (case call_openai_api e st' client (settings_table st c) ?msgs
                                 2000 (7 / 10) of
                            (r, st'') \<Rightarrow> (Some r, st''))))"
    obtain called st4 where call: "?call = (called, st4)" by (cases ?call)
    have eq: "generate_reply_try e st m info chat c u it =
       (case called of
          None \<Rightarrow> (Inr None, st4)
        | Some (Inl err) \<Rightarrow> (Inl err, st4)
        | Some (Inr reply) \<Rightarrow>
            if reply = [] then (Inr None, st4)
            else (Inr (Some reply),
                  save_conversation e
                    (save_conversation e st4 chat c u it (ascii ''user'') m (Some i))
                    chat c u it (ascii ''assistant'') reply (Some i)))"
      unfolding base Inr Some sum.case option.case call prod.case ..
    note ge = generation_call_effect[OF call]
    show ?thesis
    proof (cases called)
      case None
      with eq assms(5) ge show ?thesis by auto
    next
      case (Some res)
      show ?thesis
      proof (cases res)
        case (Inl err)
        with Some eq assms(5) ge show ?thesis by auto
      next
        case (Inr reply)
        show ?thesis
        proof (cases "reply = []")
          case True
          with Inr Some eq assms(5) ge show ?thesis by auto
        next
          case False
          with Inr Some eq assms(5) ge show ?thesis by auto
        qed
      qed
    qed
  qed
qed
qed

lemma policy_steps_effect:
  assumes "detect_intent e st m c = (i, st1)"
    and "get_conversation_context e st1 chat c 20 = (ctx, st2)"
    and "get_bargain_count e st2 chat c = (n, st3)"
  shows "same_store st st1" and "backend_calls st3 = backend_calls st1"
    and "ai_conversations st3 = ai_conversations st" and "db_ops st3 = Suc (Suc (db_ops st))"
    and "settings_table st3 = settings_table st"
proof -
  show s: "same_store st st1" using detect_intent_effect(1)[OF assms(1)] .
  have 2: "st2 = st1\<lparr>db_ops := Suc (db_ops st1)\<rparr>"
    using get_conversation_context_effect[OF assms(2)] .
  have 3: "st3 = st2\<lparr>db_ops := Suc (db_ops st2)\<rparr>"
    using get_bargain_count_effect[OF assms(3)] .
  from 2 3 show "backend_calls st3 = backend_calls st1" by simp
  from s 2 3 show "ai_conversations st3 = ai_conversations st" by (simp add: same_store_def)
  from s 2 3 show "db_ops st3 = Suc (Suc (db_ops st))" by (simp add: same_store_def)
  from s 2 3 show "settings_table st3 = settings_table st" by (simp add: same_store_def)
qed

lemma refusal_iff:
  assumes en: "is_ai_enabled st c"
    and d: "detect_intent e st m c = (i, st1)"
    and x: "get_conversation_context e st1 chat c 20 = (ctx, st2)"
    and b: "get_bargain_count e st2 chat c = (n, st3)"
    and g: "generate_reply e st m info chat c u it = (reply, st')"
  shows "(reply = Some refuse_reply \<and> backend_calls st' = backend_calls st1)
      \<longleftrightarrow> (i = ascii ''price'' \<and> n \<ge> get_or (max_bargain_rounds (settings_table st c)) 3)"
    and "i = ascii ''price'' \<and> n \<ge> get_or (max_bargain_rounds (settings_table st c)) 3 \<Longrightarrow>
         st' = save_conversation e
                (save_conversation e st3 chat c u it (ascii ''user'') m (Some (ascii ''price'')))
                chat c u it (ascii ''assistant'') refuse_reply (Some (ascii ''price''))"
proof -
  let ?cap = "get_or (max_bargain_rounds (settings_table st c)) 3"
  note eff = policy_steps_effect[OF d x b]
  obtain r where r: "generate_reply_try e st m info chat c u it = (r, st')"
    and reply: "reply = (case r of Inl err \<Rightarrow> None | Inr v \<Rightarrow> v)"
    using g en by (auto simp: generate_reply_def split: prod.splits sum.splits)
  show "(reply = Some refuse_reply \<and> backend_calls st' = backend_calls st1)
      \<longleftrightarrow> (i = ascii ''price'' \<and> n \<ge> ?cap)"
  proof (cases "i = ascii ''price'' \<and> n \<ge> ?cap")
    case True
    then have "generate_reply_try e st m info chat c u it =
       (Inr (Some refuse_reply),
        save_conversation e
          (save_conversation e st3 chat c u it (ascii ''user'') m (Some (ascii ''price'')))
          chat c u it (ascii ''assistant'') refuse_reply (Some (ascii ''price'')))"
      using generate_reply_try_refuse[OF d x b, where info=info and u=u and it=it] by simp
    with r have "r = Inr (Some refuse_reply)"
      and "st' = save_conversation e
          (save_conversation e st3 chat c u it (ascii ''user'') m (Some (ascii ''price'')))
          chat c u it (ascii ''assistant'') refuse_reply (Some (ascii ''price''))"
      by simp_all
    with reply True eff(2) show ?thesis
      by (simp add: save_conversation_effect)
  next
    case False
    from generate_reply_try_proceed[OF d x b False r]
    have "\<not> (reply = Some refuse_reply \<and> backend_calls st' = backend_calls st1)"
      using reply eff(2) by (auto simp: save_conversation_effect)
    with False show ?thesis by blast
  qed
  show "st' = save_conversation e
                (save_conversation e st3 chat c u it (ascii ''user'') m (Some (ascii ''price'')))
                chat c u it (ascii ''assistant'') refuse_reply (Some (ascii ''price''))"
    if "i = ascii ''price'' \<and> n \<ge> ?cap"
    using generate_reply_try_refuse[OF d x b, where info=info and u=u and it=it] that r by simp
qed

section \<open>Evaluation on the example inputs\<close>

lemmas fixture_defs = fixture_env_def fixture_world_def fixture_settings_def

lemma ascii_neq [simp]:
  "ascii ''classify'' \<noteq> ascii ''price''" "ascii ''classify'' \<noteq> ascii ''tech''"
  "ascii ''classify'' \<noteq> ascii ''default''" "ascii ''price'' \<noteq> ascii ''tech''"
  "ascii ''price'' \<noteq> ascii ''default''" "ascii ''tech'' \<noteq> ascii ''default''"
  by (simp_all add: ascii_def)

lemma intent_of_response_price: "intent_of_response (\<lambda>before c after. [c]) (ascii ''price'') = ascii ''price''"
proof -
  have "normalize_intent (\<lambda>before c after. [c]) (ascii ''price'') = ascii ''price''"
    by (simp add: normalize_intent_def py_lower_def py_remove_char_def ascii_lower_def py_strip_eval)
  then show ?thesis
    by (simp add: intent_of_response_def Let_def intent_price_def)
qed

lemma intent_of_response_tech: "intent_of_response (\<lambda>before c after. [c]) (ascii ''tech'') = ascii ''tech''"
proof -
  have n: "normalize_intent (\<lambda>before c after. [c]) (ascii ''tech'') = ascii ''tech''"
    by (simp add: normalize_intent_def py_lower_def py_remove_char_def ascii_lower_def py_strip_eval)
  have "\<not> sublist (ascii ''price'') (ascii ''tech'')" "\<not> sublist [0x4EF7, 0x683C] (ascii ''tech'')"
    by (simp_all add: ascii_def sublist_Cons_right)
  with n show ?thesis
    by (simp add: intent_of_response_def Let_def intent_tech_def)
qed

lemma extract_label:
  "extract_response_content \<lparr>choices = [\<lparr>content = Some (ascii ''price''), reasoning_content = None\<rparr>]\<rparr> = ascii ''price''"
  "extract_response_content \<lparr>choices = [\<lparr>content = Some (ascii ''tech''), reasoning_content = None\<rparr>]\<rparr> = ascii ''tech''"
proof -
  have "\<not> sublist think_open (ascii ''price'')" "\<not> sublist think_open (ascii ''tech'')"
    by (simp_all add: think_open_eq ascii_def sublist_Cons_right)
  moreover have "py_strip (ascii ''price'') = ascii ''price''" "py_strip (ascii ''tech'') = ascii ''tech''"
    by (simp_all add: py_strip_eval)
  moreover have "ascii ''price'' \<noteq> []" "ascii ''tech'' \<noteq> []" by (simp_all add: ascii_def)
  ultimately show
    "extract_response_content \<lparr>choices = [\<lparr>content = Some (ascii ''price''), reasoning_content = None\<rparr>]\<rparr> = ascii ''price''"
    "extract_response_content \<lparr>choices = [\<lparr>content = Some (ascii ''tech''), reasoning_content = None\<rparr>]\<rparr> = ascii ''tech''"
    by (simp_all add: extract_response_content_first)
qed

lemma fixture_not_dashscope:
  "\<not> is_dashscope_api (\<lambda>before c after. [c]) (fixture_settings en (ascii ''gpt-4'') url cap)"
  by (simp add: is_dashscope_api_def Let_def custom_model_names_def get_or_def
      py_lower_def ascii_def ascii_lower_def fixture_settings_def)

lemma is_dashscope_api_custom:
  "model_name settings = Some (ascii ''custom'') \<Longrightarrow>
   sublist (ascii ''dashscope.aliyuncs.com'') url \<Longrightarrow> base_url settings = Some url \<Longrightarrow>
   is_dashscope_api (\<lambda>before c after. [c]) settings"
  by (simp add: is_dashscope_api_def Let_def custom_model_names_def dashscope_domain_def get_or_def
      py_lower_def ascii_def ascii_lower_def)

lemma fixture_detect_intent_price:
  "fst (detect_intent (fixture_env (ascii ''price'') answer faults)
         (fixture_world (fixture_settings True (ascii ''gpt-4'') url cap) rows) m c) = ascii ''price''"
proof -
  have nd: "\<not> is_dashscope_api (\<lambda>before c after. [c])
      \<lparr>ai_enabled = True, api_key = Some (ascii ''sk-test''), base_url = Some url,
       model_name = Some (ascii ''gpt-4''), custom_prompts = None, max_bargain_rounds = cap,
       max_discount_percent = None, max_discount_amount = None\<rparr>"
    using fixture_not_dashscope[of True url cap] by (simp add: fixture_settings_def)
  have k: "ascii ''sk-test'' \<noteq> []" by (simp add: ascii_def)
  show ?thesis
    by (simp add: detect_intent_def detect_intent_try_def Let_def fixture_defs
      load_custom_prompts_def get_client_def call_openai_api_def extract_label
      intent_of_response_price truthy_def format_opt_def get_or_def nd k)
qed

lemma fixture_detect_intent_tech:
  "fst (detect_intent (fixture_env (ascii ''tech'') answer faults)
         (fixture_world (fixture_settings True (ascii ''gpt-4'') url cap) rows) m c) = ascii ''tech''"
proof -
  have nd: "\<not> is_dashscope_api (\<lambda>before c after. [c])
      \<lparr>ai_enabled = True, api_key = Some (ascii ''sk-test''), base_url = Some url,
       model_name = Some (ascii ''gpt-4''), custom_prompts = None, max_bargain_rounds = cap,
       max_discount_percent = None, max_discount_amount = None\<rparr>"
    using fixture_not_dashscope[of True url cap] by (simp add: fixture_settings_def)
  have k: "ascii ''sk-test'' \<noteq> []" by (simp add: ascii_def)
  show ?thesis
    by (simp add: detect_intent_def detect_intent_try_def Let_def fixture_defs
      load_custom_prompts_def get_client_def call_openai_api_def extract_label
      intent_of_response_tech truthy_def format_opt_def get_or_def nd k)
qed

lemma fixture_empty_generation:
  defines "e1 \<equiv> fixture_env (ascii ''tech'')
      \<lparr>content = Some [], reasoning_content = Some (ascii ''thinking'')\<rparr> (\<lambda>n. False)"
    and "w1 \<equiv> fixture_world (fixture_settings True (ascii ''gpt-4'') (ascii ''https://api.openai.com/v1'') None) []"
  shows "fst (generate_reply e1 w1 m info chat c u it) = None"
    and "ai_conversations (snd (generate_reply e1 w1 m info chat c u it)) = []"
    and "backend_calls (snd (generate_reply e1 w1 m info chat c u it)) \<noteq> []"
    and "call_max_tokens (last (backend_calls (snd (generate_reply e1 w1 m info chat c u it)))) = 2000"
    and "call_reply (last (backend_calls (snd (generate_reply e1 w1 m info chat c u it)))) = Inr []"
proof -
  have nd: "\<not> is_dashscope_api (\<lambda>before c after. [c])
      \<lparr>ai_enabled = True, api_key = Some (ascii ''sk-test''),
       base_url = Some (ascii ''https://api.openai.com/v1''),
       model_name = Some (ascii ''gpt-4''), custom_prompts = None, max_bargain_rounds = None,
       max_discount_percent = None, max_discount_amount = None\<rparr>"
    using fixture_not_dashscope[of True "ascii ''https://api.openai.com/v1''" None]
    by (simp add: fixture_settings_def)
  have k: "ascii ''sk-test'' \<noteq> []" by (simp add: ascii_def)
  have ex: "extract_response_content
      \<lparr>choices = [\<lparr>content = Some [], reasoning_content = Some (ascii ''thinking'')\<rparr>]\<rparr> = []"
    by (simp add: extract_response_content_def extract_response_content_try_def ascii_def)
  note defs = generate_reply_def generate_reply_try_def is_ai_enabled_def
      detect_intent_def detect_intent_try_def Let_def fixture_defs
      load_custom_prompts_def get_client_def call_openai_api_def extract_label ex
      intent_of_response_tech truthy_def format_opt_def get_or_def nd k
      get_conversation_context_def get_bargain_count_def call_max_tokens_def e1_def w1_def
  show "fst (generate_reply e1 w1 m info chat c u it) = None" by (simp add: defs)
  show "ai_conversations (snd (generate_reply e1 w1 m info chat c u it)) = []" by (simp add: defs)
  show "backend_calls (snd (generate_reply e1 w1 m info chat c u it)) \<noteq> []" by (simp add: defs)
  show "call_max_tokens (last (backend_calls (snd (generate_reply e1 w1 m info chat c u it)))) = 2000"
    by (simp add: defs)
  show "call_reply (last (backend_calls (snd (generate_reply e1 w1 m info chat c u it)))) = Inr []"
    by (simp add: defs)
qed

lemma generate_reply_call_kinds:
  assumes g: "generate_reply e st m info chat c u it = (reply, st')"
    and new: "backend_calls st' = backend_calls st @ new" and cr: "cr \<in> set new"
  shows "is_dashscope_call cr \<longleftrightarrow> is_dashscope_api (unicode_lower e) (settings_table st c)"
proof (cases "is_ai_enabled st c")
  case False
  with g new cr show ?thesis by (auto simp: generate_reply_def)
next
  case True
  obtain i st1 where d: "detect_intent e st m c = (i, st1)" by (cases "detect_intent e st m c")
  obtain ctx st2 where x: "get_conversation_context e st1 chat c 20 = (ctx, st2)"
    by (cases "get_conversation_context e st1 chat c 20")
  obtain n st3 where b: "get_bargain_count e st2 chat c = (n, st3)"
    by (cases "get_bargain_count e st2 chat c")
  note eff = policy_steps_effect[OF d x b]
  note de = detect_intent_effect(2)[OF d]
  obtain r where r: "generate_reply_try e st m info chat c u it = (r, st')"
    using g True by (auto simp: generate_reply_def split: prod.splits sum.splits)
  show ?thesis
  proof (cases "i = ascii ''price'' \<and> n \<ge> get_or (max_bargain_rounds (settings_table st c)) 3")
    case True
    then have "generate_reply_try e st m info chat c u it =
       (Inr (Some refuse_reply),
        save_conversation e
          (save_conversation e st3 chat c u it (ascii ''user'') m (Some (ascii ''price'')))
          chat c u it (ascii ''assistant'') refuse_reply (Some (ascii ''price'')))"
      using generate_reply_try_refuse[OF d x b, where info=info and u=u and it=it] by simp
    with r have "st' = save_conversation e
          (save_conversation e st3 chat c u it (ascii ''user'') m (Some (ascii ''price'')))
          chat c u it (ascii ''assistant'') refuse_reply (Some (ascii ''price''))"
      by simp
    then have "backend_calls st' = backend_calls st1"
      using eff(2) by (simp add: save_conversation_effect)
    with de new cr show ?thesis by auto
  next
    case False
    from generate_reply_try_proceed[OF d x b False r] eff(2) de new cr show ?thesis
      by (auto simp: save_conversation_effect)
  qed
qed

section \<open>Protocol selection\<close>

text \<open>
  C3. The DashScope format is selected exactly when the lower-cased model name is one of
  \<open>custom\<close>, U+81EA U+5B9A U+4E49, \<open>dashscope\<close>, \<open>qwen-custom\<close> and the URL contains
  \<open>dashscope.aliyuncs.com\<close> (an absent key counts as \<open>''\<close>). So \<open>gpt-4\<close> never selects
  it, whatever the URL; \<open>custom\<close> with a URL without the domain does not select it;
  \<open>custom\<close> with a URL that contains the domain selects it. The selection decides the
  calls: every backend call that a run of \<open>generate_reply\<close> makes, for classification
  or for generation, is a DashScope request exactly when the account's settings select
  the DashScope format, and a chat-completions request otherwise.
\<close>

theorem is_dashscope_api_iff:
  "(is_dashscope_api lc settings \<longleftrightarrow>
      py_lower lc (get_or (model_name settings) []) \<in>
        {ascii ''custom'', [0x81EA, 0x5B9A, 0x4E49], ascii ''dashscope'', ascii ''qwen-custom''}
      \<and> sublist (ascii ''dashscope.aliyuncs.com'') (get_or (base_url settings) []))
   \<and> (model_name settings = Some (ascii ''gpt-4'') \<longrightarrow> \<not> is_dashscope_api lc settings)
   \<and> (model_name settings = Some (ascii ''custom'')
        \<and> \<not> sublist (ascii ''dashscope.aliyuncs.com'') (get_or (base_url settings) [])
        \<longrightarrow> \<not> is_dashscope_api lc settings)
   \<and> (model_name settings = Some (ascii ''custom'')
        \<and> sublist (ascii ''dashscope.aliyuncs.com'') (get_or (base_url settings) [])
        \<longrightarrow> is_dashscope_api lc settings)
   \<and> (generate_reply e st m info chat c u it = (reply, st')
        \<and> backend_calls st' = backend_calls st @ new \<and> cr \<in> set new \<longrightarrow>
        (is_dashscope_call cr \<longleftrightarrow> is_dashscope_api (unicode_lower e) (settings_table st c)))"
proof -
  have "(is_dashscope_api lc settings \<longleftrightarrow>
      py_lower lc (get_or (model_name settings) []) \<in>
        {ascii ''custom'', [0x81EA, 0x5B9A, 0x4E49], ascii ''dashscope'', ascii ''qwen-custom''}
      \<and> sublist (ascii ''dashscope.aliyuncs.com'') (get_or (base_url settings) []))
   \<and> (model_name settings = Some (ascii ''gpt-4'') \<longrightarrow> \<not> is_dashscope_api lc settings)
   \<and> (model_name settings = Some (ascii ''custom'')
        \<and> \<not> sublist (ascii ''dashscope.aliyuncs.com'') (get_or (base_url settings) [])
        \<longrightarrow> \<not> is_dashscope_api lc settings)
   \<and> (model_name settings = Some (ascii ''custom'')
        \<and> sublist (ascii ''dashscope.aliyuncs.com'') (get_or (base_url settings) [])
        \<longrightarrow> is_dashscope_api lc settings)"
    by (simp add: is_dashscope_api_def Let_def custom_model_names_def dashscope_domain_def
        get_or_def py_lower_def ascii_def ascii_lower_def)
  with generate_reply_call_kinds[of e st m info chat c u it reply st' new cr] show ?thesis
    by blast
qed

theorem is_dashscope_api_iff_witness:
  "\<not> is_dashscope_api (\<lambda>before c after. [c])
       (fixture_settings True (ascii ''gpt-4'') (ascii ''https://dashscope.aliyuncs.com/api/v1/apps/abc'') None)
   \<and> \<not> sublist (ascii ''dashscope.aliyuncs.com'') (ascii ''https://api.openai.com/v1'')
   \<and> \<not> is_dashscope_api (\<lambda>before c after. [c])
       (fixture_settings True (ascii ''custom'') (ascii ''https://api.openai.com/v1'') None)
   \<and> sublist (ascii ''dashscope.aliyuncs.com'') (ascii ''https://dashscope.aliyuncs.com/api/v1/apps/abc'')
   \<and> is_dashscope_api (\<lambda>before c after. [c])
       (fixture_settings True (ascii ''custom'') (ascii ''https://dashscope.aliyuncs.com/api/v1/apps/abc'') None)
   \<and> \<not> is_dashscope_call (last (backend_calls (snd (generate_reply
        (fixture_env (ascii ''tech'') thinking_only (\<lambda>n. False))
        (fixture_world (gpt_account True None) [])
        cheaper_message no_details (ascii ''chat'') (ascii ''acct'') (ascii ''buyer'') (ascii ''item'')))))"
proof -
  let ?e = "fixture_env (ascii ''tech'') thinking_only (\<lambda>n. False)"
  let ?w = "fixture_world (gpt_account True None) []"
  let ?G = "generate_reply ?e ?w cheaper_message no_details (ascii ''chat'') (ascii ''acct'')
      (ascii ''buyer'') (ascii ''item'')"
  note f = fixture_empty_generation[of cheaper_message no_details "ascii ''chat''" "ascii ''acct''"
      "ascii ''buyer''" "ascii ''item''", folded gpt_account_def thinking_only_def]
  have g: "?G = (fst ?G, snd ?G)" by simp
  have new: "backend_calls (snd ?G) = backend_calls ?w @ backend_calls (snd ?G)"
    by (simp add: fixture_world_def)
  have mem: "last (backend_calls (snd ?G)) \<in> set (backend_calls (snd ?G))"
    using f(3) by simp
  have nd: "\<not> is_dashscope_api (unicode_lower ?e) (settings_table ?w (ascii ''acct''))"
    using fixture_not_dashscope[of True "ascii ''https://api.openai.com/v1''" None]
    by (simp add: fixture_defs gpt_account_def)
  have k: "\<not> is_dashscope_call (last (backend_calls (snd ?G)))"
    using is_dashscope_api_iff[where e = ?e and st = ?w and m = cheaper_message
        and info = no_details and chat = "ascii ''chat''" and c = "ascii ''acct''"
        and u = "ascii ''buyer''" and it = "ascii ''item''" and reply = "fst ?G" and st' = "snd ?G"
        and new = "backend_calls (snd ?G)" and cr = "last (backend_calls (snd ?G))",
        THEN conjunct2, THEN conjunct2, THEN conjunct2, THEN conjunct2] g new mem nd
    by blast
  have a: "\<not> sublist (ascii ''dashscope.aliyuncs.com'') (ascii ''https://api.openai.com/v1'')"
    by code_simp
  have b: "sublist (ascii ''dashscope.aliyuncs.com'') (ascii ''https://dashscope.aliyuncs.com/api/v1/apps/abc'')"
    by code_simp
  show ?thesis
    using a b
      is_dashscope_api_iff[of "\<lambda>before c after. [c]"
        "fixture_settings True (ascii ''gpt-4'') (ascii ''https://dashscope.aliyuncs.com/api/v1/apps/abc'') None",
        THEN conjunct2, THEN conjunct1]
      is_dashscope_api_iff[of "\<lambda>before c after. [c]"
        "fixture_settings True (ascii ''custom'') (ascii ''https://api.openai.com/v1'') None",
        THEN conjunct2, THEN conjunct2, THEN conjunct1]
      is_dashscope_api_iff[of "\<lambda>before c after. [c]"
        "fixture_settings True (ascii ''custom'') (ascii ''https://dashscope.aliyuncs.com/api/v1/apps/abc'') None",
        THEN conjunct2, THEN conjunct2, THEN conjunct2, THEN conjunct1]
    by (simp add: fixture_settings_def get_or_def k)
qed

section \<open>Client resource manager: eviction and lookup\<close>

text \<open>
  C8. A sweep at time \<open>now\<close> (the clock reading it takes) with threshold
  \<open>max_idle_hours\<close> removes a cached connection last used at \<open>T\<close> exactly when
  \<open>now - T\<close>, the difference of the two floats as the code computes it, exceeds
  \<open>max_idle_hours * 3600\<close>; an expired account leaves all three dicts, every other
  account keeps its entries, and this holds for every account at once, in the one sweep.
  Where the float subtraction is exact, this is the comparison of the difference of the
  two timestamps with the threshold. With a threshold of one hour, a connection last used
  at \<open>T\<close> is removed by a sweep at \<open>T + 2h\<close> and kept by a sweep at \<open>T + 30min\<close>
  (7200 and 1800 seconds being the computed differences).
\<close>

theorem cleanup_unused_clients_evicts:
  "(client_last_used st c = Some T \<and> clients st c = Some cl \<longrightarrow>
      (clients (cleanup_unused_clients e st h) c = None
        \<longleftrightarrow> float_sub e (time_time e (clock_ticks st)) T > real_of_int (h * 3600)))
   \<and> (client_last_used st c = Some T \<and> clients st c = Some cl
        \<and> float_sub e (time_time e (clock_ticks st)) T = time_time e (clock_ticks st) - T \<longrightarrow>
      (clients (cleanup_unused_clients e st h) c = None
        \<longleftrightarrow> time_time e (clock_ticks st) - T > real_of_int (h * 3600)))
   \<and> (client_last_used st c = Some T
        \<and> float_sub e (time_time e (clock_ticks st)) T > real_of_int (h * 3600) \<longrightarrow>
        clients (cleanup_unused_clients e st h) c = None
        \<and> client_last_used (cleanup_unused_clients e st h) c = None
        \<and> agents (cleanup_unused_clients e st h) c = None)
   \<and> (client_last_used st c = Some T
        \<and> \<not> float_sub e (time_time e (clock_ticks st)) T > real_of_int (h * 3600) \<longrightarrow>
        clients (cleanup_unused_clients e st h) c = clients st c
        \<and> client_last_used (cleanup_unused_clients e st h) c = Some T
        \<and> agents (cleanup_unused_clients e st h) c = agents st c)
   \<and> (client_last_used st c = None \<longrightarrow>
        clients (cleanup_unused_clients e st h) c = clients st c
        \<and> agents (cleanup_unused_clients e st h) c = agents st c)
   \<and> (client_last_used st c = Some T \<and> clients st c = Some cl
        \<and> time_time e (clock_ticks st) = T + 2 * 3600
        \<and> float_sub e (T + 2 * 3600) T = 2 * 3600 \<longrightarrow>
        clients (cleanup_unused_clients e st 1) c = None)
   \<and> (client_last_used st c = Some T \<and> clients st c = Some cl
        \<and> time_time e (clock_ticks st) = T + 30 * 60
        \<and> float_sub e (T + 30 * 60) T = 30 * 60 \<longrightarrow>
        clients (cleanup_unused_clients e st 1) c = Some cl)"
  by (simp add: cleanup_unused_clients_def Let_def)

theorem cleanup_unused_clients_evicts_witness:
  "clients (cleanup_unused_clients (fixture_env [] \<lparr>content = None, reasoning_content = None\<rparr> (\<lambda>n. False))
      ((fixture_world (fixture_settings True (ascii ''gpt-4'') (ascii ''u'') None) [])
         \<lparr>clients := [ascii ''acct'' \<mapsto> \<lparr>client_api_key = ascii ''k'', client_base_url = ascii ''u''\<rparr>],
          client_last_used := [ascii ''acct'' \<mapsto> - 6200]\<rparr>) 1) (ascii ''acct'') = None
   \<and> clients (cleanup_unused_clients (fixture_env [] \<lparr>content = None, reasoning_content = None\<rparr> (\<lambda>n. False))
      ((fixture_world (fixture_settings True (ascii ''gpt-4'') (ascii ''u'') None) [])
         \<lparr>clients := [ascii ''acct'' \<mapsto> \<lparr>client_api_key = ascii ''k'', client_base_url = ascii ''u''\<rparr>],
          client_last_used := [ascii ''acct'' \<mapsto> - 800]\<rparr>) 1) (ascii ''acct'')
       = Some \<lparr>client_api_key = ascii ''k'', client_base_url = ascii ''u''\<rparr>"
  using
    cleanup_unused_clients_evicts[where
      e = "fixture_env [] \<lparr>content = None, reasoning_content = None\<rparr> (\<lambda>n. False)"
      and st = "(fixture_world (fixture_settings True (ascii ''gpt-4'') (ascii ''u'') None) [])
         \<lparr>clients := [ascii ''acct'' \<mapsto> \<lparr>client_api_key = ascii ''k'', client_base_url = ascii ''u''\<rparr>],
          client_last_used := [ascii ''acct'' \<mapsto> - 6200]\<rparr>"
      and c = "ascii ''acct''" and T = "- 6200" and h = 1
      and cl = "\<lparr>client_api_key = ascii ''k'', client_base_url = ascii ''u''\<rparr>"]
    cleanup_unused_clients_evicts[where
      e = "fixture_env [] \<lparr>content = None, reasoning_content = None\<rparr> (\<lambda>n. False)"
      and st = "(fixture_world (fixture_settings True (ascii ''gpt-4'') (ascii ''u'') None) [])
         \<lparr>clients := [ascii ''acct'' \<mapsto> \<lparr>client_api_key = ascii ''k'', client_base_url = ascii ''u''\<rparr>],
          client_last_used := [ascii ''acct'' \<mapsto> - 800]\<rparr>"
      and c = "ascii ''acct''" and T = "- 800" and h = 1
      and cl = "\<lparr>client_api_key = ascii ''k'', client_base_url = ascii ''u''\<rparr>"]
  by (simp add: fixture_defs)

text \<open>
  C7, as stated, fails: the settings are read only when no connection is cached for the
  account. Here a connection is created while the account is enabled; the account is then
  disabled in the settings table; the next lookup still returns the cached connection.
\<close>

theorem get_client_cached_counterexample:
  "\<not> ai_enabled (settings_table
        ((snd (get_client (fixture_env [] \<lparr>content = None, reasoning_content = None\<rparr> (\<lambda>n. False))
                (fixture_world (fixture_settings True (ascii ''gpt-4'') (ascii ''u'') None) [])
                (ascii ''acct'')))
           \<lparr>settings_table := \<lambda>cookie_id. fixture_settings False (ascii ''gpt-4'') (ascii ''u'') None\<rparr>)
        (ascii ''acct''))
   \<and> fst (get_client (fixture_env [] \<lparr>content = None, reasoning_content = None\<rparr> (\<lambda>n. False))
        ((snd (get_client (fixture_env [] \<lparr>content = None, reasoning_content = None\<rparr> (\<lambda>n. False))
                (fixture_world (fixture_settings True (ascii ''gpt-4'') (ascii ''u'') None) [])
                (ascii ''acct'')))
           \<lparr>settings_table := \<lambda>cookie_id. fixture_settings False (ascii ''gpt-4'') (ascii ''u'') None\<rparr>)
        (ascii ''acct''))
     = Some \<lparr>client_api_key = ascii ''sk-test'', client_base_url = ascii ''u''\<rparr>"
  by (simp add: get_client_def Let_def fixture_defs truthy_def format_opt_def ascii_def)

text \<open>
  C7, amended. When no connection is cached for the account and the account is disabled
  or has no credential, \<open>get_client\<close> returns \<open>None\<close> and changes nothing; it is a total
  function, so nothing is raised. A cached connection is returned whatever the settings
  say at the time of the call.
\<close>

theorem get_client_absent_uncached:
  "(clients st c = None
      \<and> (\<not> ai_enabled (settings_table st c) \<or> \<not> truthy (api_key (settings_table st c)))
      \<longrightarrow> get_client e st c = (None, st))
   \<and> (clients st c = Some cl \<longrightarrow> fst (get_client e st c) = Some cl)"
  by (auto simp: get_client_def Let_def)

theorem get_client_absent_uncached_witness:
  "clients (fixture_world (fixture_settings False (ascii ''gpt-4'') (ascii ''u'') None) [])
       (ascii ''acct'') = None
   \<and> \<not> ai_enabled (settings_table
         (fixture_world (fixture_settings False (ascii ''gpt-4'') (ascii ''u'') None) [])
         (ascii ''acct''))
   \<and> get_client (fixture_env [] \<lparr>content = None, reasoning_content = None\<rparr> (\<lambda>n. False))
        (fixture_world (fixture_settings False (ascii ''gpt-4'') (ascii ''u'') None) [])
        (ascii ''acct'')
     = (None, fixture_world (fixture_settings False (ascii ''gpt-4'') (ascii ''u'') None) [])"
  using get_client_absent_uncached[where
      e = "fixture_env [] \<lparr>content = None, reasoning_content = None\<rparr> (\<lambda>n. False)"
      and st = "fixture_world (fixture_settings False (ascii ''gpt-4'') (ascii ''u'') None) []"
      and c = "ascii ''acct''"]
  by (simp add: fixture_defs)

section \<open>Intent classifier: errors and post-processing\<close>

lemma lower_from_ascii_prefix:
  "\<forall>c\<in>set p. c < 128 \<Longrightarrow>
   lower_from lc before (p @ b) = map ascii_lower p @ lower_from lc (before @ p) b"
  by (induction p arbitrary: before) auto

lemma sublist_py_lower:
  assumes "sublist p t" and "\<forall>c\<in>set p. c < 128" and "map ascii_lower p = p"
  shows "sublist p (py_lower lc t)"
proof -
  from assms(1) obtain a b where t: "t = a @ p @ b" by (auto simp: sublist_def)
  have "\<exists>x y. lower_from lc before (a @ p @ b) = x @ p @ y" for before
  proof (induction a arbitrary: before)
    case Nil
    show ?case
      using lower_from_ascii_prefix[OF assms(2), of lc before b] assms(3)
      by (metis append_Nil)
  next
    case (Cons c a)
    from Cons[of "before @ [c]"] obtain x y where
      "lower_from lc (before @ [c]) (a @ p @ b) = x @ p @ y" by blast
    then have "lower_from lc before ((c # a) @ p @ b)
        = ((if c < 128 then [ascii_lower c] else lc before c (a @ p @ b)) @ x) @ p @ y"
      by simp
    then show ?case by blast
  qed
  then show ?thesis
    unfolding t py_lower_def sublist_def by metis
qed

lemma sublist_filter_keep:
  assumes "sublist p s" and "\<forall>c\<in>set p. P c"
  shows "sublist p (filter P s)"
proof -
  from assms(1) obtain a b where "s = a @ p @ b" by (auto simp: sublist_def)
  moreover from assms(2) have "filter P p = p" by (simp add: filter_id_conv)
  ultimately show ?thesis by simp
qed

lemma sublist_py_strip:
  assumes "sublist (a # mid @ [b]) s" and "\<not> py_isspace a" and "\<not> py_isspace b"
  shows "sublist (a # mid @ [b]) (py_strip s)"
proof -
  from assms(1) obtain x y where "s = x @ (a # mid @ [b]) @ y" by (auto simp: sublist_def)
  then have "py_strip s = py_lstrip x @ (a # mid @ [b]) @ py_rstrip y"
    using py_strip_around[OF assms(2,3)] by simp
  then show ?thesis by (metis sublist_appendI)
qed

lemma raw_price_keyword:
  assumes "sublist (ascii ''price'') t"
  shows "intent_of_response lc t = ascii ''price''"
proof -
  have p: "ascii ''price'' = 112 # [114, 105, 99] @ [101]" by (simp add: ascii_def)
  have 1: "sublist (ascii ''price'') (py_lower lc t)"
    using assms by (rule sublist_py_lower) (simp_all add: ascii_def ascii_lower_def)
  have 2: "sublist (ascii ''price'') (py_remove_char 46 (py_lower lc t))"
    unfolding py_remove_char_def using 1 by (rule sublist_filter_keep) (simp add: ascii_def)
  have 3: "sublist (ascii ''price'') (py_remove_char 0x3002 (py_remove_char 46 (py_lower lc t)))"
    unfolding py_remove_char_def using 2[unfolded py_remove_char_def]
    by (rule sublist_filter_keep) (simp add: ascii_def)
  have "sublist (112 # [114, 105, 99] @ [101]) (normalize_intent lc t)"
    unfolding normalize_intent_def using 3[unfolded p]
    by (rule sublist_py_strip) (simp_all add: py_isspace_def)
  then show ?thesis
    by (simp add: intent_of_response_def Let_def intent_price_def p)
qed

lemma intent_examples:
  "intent_of_response lc (ascii ''Price.'') = ascii ''price''"
  "intent_of_response lc (ascii '' TECH '') = ascii ''tech''"
  "intent_of_response lc (ascii ''other'') = ascii ''default''"
proof -
  have a: "normalize_intent lc (ascii ''Price.'') = ascii ''price''"
    "normalize_intent lc (ascii '' TECH '') = ascii ''tech''"
    "normalize_intent lc (ascii ''other'') = ascii ''other''"
    by (simp_all add: normalize_intent_def py_lower_def py_remove_char_def ascii_lower_def py_strip_eval)
  have b: "\<not> sublist (ascii ''price'') (ascii ''tech'')" "\<not> sublist [0x4EF7, 0x683C] (ascii ''tech'')"
    "\<not> sublist (ascii ''price'') (ascii ''other'')" "\<not> sublist [0x4EF7, 0x683C] (ascii ''other'')"
    "\<not> sublist (ascii ''tech'') (ascii ''other'')" "\<not> sublist [0x6280, 0x672F] (ascii ''other'')"
    by (simp_all add: ascii_def sublist_Cons_right)
  show "intent_of_response lc (ascii ''Price.'') = ascii ''price''"
    "intent_of_response lc (ascii '' TECH '') = ascii ''tech''"
    "intent_of_response lc (ascii ''other'') = ascii ''default''"
    using a b
    by (simp_all add: intent_of_response_def Let_def intent_price_def intent_tech_def intent_default_def)
qed

text \<open>
  C6. \<open>detect_intent\<close> returns an intent on every input and raises nothing. It returns
  \<open>default\<close>, without a backend call, when the account is disabled or has no
  credential; it returns \<open>default\<close> whenever the body of its \<open>try\<close> raises: in
  particular when the custom prompts do not parse, and when the backend call raises.
  When the backend call returns a text, the result is \<open>price\<close> if the text, lower-cased,
  with the periods \<open>.\<close> and U+3002 removed and trimmed, contains \<open>price\<close> or
  U+4EF7 U+683C; otherwise \<open>tech\<close> if it contains \<open>tech\<close> or U+6280 U+672F; otherwise
  \<open>default\<close>. In particular a response that contains \<open>price\<close> as it stands is
  classified as \<open>price\<close>; \<open>Price.\<close> gives \<open>price\<close>, \<open>TECH\<close> between blanks gives
  \<open>tech\<close>, and \<open>other\<close> gives \<open>default\<close>.
\<close>

theorem detect_intent_never_fails:
  "(\<not> ai_enabled (settings_table st c) \<or> \<not> truthy (api_key (settings_table st c)) \<longrightarrow>
      detect_intent e st m c = (ascii ''default'', st))
   \<and> (fst (detect_intent_try e st m c) = Inl err \<longrightarrow>
        fst (detect_intent e st m c) = ascii ''default'')
   \<and> (ai_enabled (settings_table st c) \<and> truthy (api_key (settings_table st c))
        \<and> truthy (custom_prompts (settings_table st c))
        \<and> json_loads e (format_opt (custom_prompts (settings_table st c))) = Inl err \<longrightarrow>
        detect_intent e st m c = (ascii ''default'', st))
   \<and> (backend_calls (snd (detect_intent e st m c)) = backend_calls st @ [cr]
        \<and> call_reply cr = Inl err \<longrightarrow>
        fst (detect_intent e st m c) = ascii ''default'')
   \<and> (backend_calls (snd (detect_intent e st m c)) = backend_calls st @ [cr]
        \<and> call_reply cr = Inr t \<longrightarrow>
        fst (detect_intent e st m c) = intent_of_response (unicode_lower e) t)
   \<and> fst (detect_intent e st m c) \<in> {ascii ''price'', ascii ''tech'', ascii ''default''}
   \<and> intent_of_response lc t =
       (if sublist (ascii ''price'') (normalize_intent lc t)
           \<or> sublist [0x4EF7, 0x683C] (normalize_intent lc t) then ascii ''price''
        else if sublist (ascii ''tech'') (normalize_intent lc t)
           \<or> sublist [0x6280, 0x672F] (normalize_intent lc t) then ascii ''tech''
        else ascii ''default'')
   \<and> normalize_intent lc t = py_strip (filter (\<lambda>x. x \<noteq> 46 \<and> x \<noteq> 0x3002) (py_lower lc t))
   \<and> (sublist (ascii ''price'') t \<longrightarrow> intent_of_response lc t = ascii ''price'')
   \<and> intent_of_response lc (ascii ''Price.'') = ascii ''price''
   \<and> intent_of_response lc (ascii '' TECH '') = ascii ''tech''
   \<and> intent_of_response lc (ascii ''other'') = ascii ''default''"
proof -
  obtain i st' where d: "detect_intent e st m c = (i, st')"
    by (cases "detect_intent e st m c")
  note eff = detect_intent_effect(2)[OF d]
  have io: "intent_of_response lc' t' \<in> {ascii ''price'', ascii ''tech'', ascii ''default''}"
    for lc' t'
    by (simp add: intent_of_response_def Let_def intent_price_def intent_tech_def intent_default_def)
  have 1: "\<not> ai_enabled (settings_table st c) \<or> \<not> truthy (api_key (settings_table st c)) \<longrightarrow>
      detect_intent e st m c = (ascii ''default'', st)"
    by (auto simp: detect_intent_def detect_intent_try_def Let_def intent_default_def)
  have 2: "fst (detect_intent_try e st m c) = Inl err \<longrightarrow>
        fst (detect_intent e st m c) = ascii ''default''"
    by (cases "detect_intent_try e st m c") (auto simp: detect_intent_def intent_default_def)
  have 3: "ai_enabled (settings_table st c) \<and> truthy (api_key (settings_table st c))
        \<and> truthy (custom_prompts (settings_table st c))
        \<and> json_loads e (format_opt (custom_prompts (settings_table st c))) = Inl err \<longrightarrow>
        detect_intent e st m c = (ascii ''default'', st)"
    by (simp add: detect_intent_def detect_intent_try_def Let_def load_custom_prompts_def
        intent_default_def)
  have 4: "backend_calls (snd (detect_intent e st m c)) = backend_calls st @ [cr]
        \<and> call_reply cr = Inl err \<longrightarrow> fst (detect_intent e st m c) = ascii ''default''"
    using eff d by (auto simp: intent_default_def)
  have 5: "backend_calls (snd (detect_intent e st m c)) = backend_calls st @ [cr]
        \<and> call_reply cr = Inr t \<longrightarrow>
        fst (detect_intent e st m c) = intent_of_response (unicode_lower e) t"
    using eff d by auto
  have 6: "fst (detect_intent e st m c) \<in> {ascii ''price'', ascii ''tech'', ascii ''default''}"
  proof -
    have "i = ascii ''default'' \<or> (\<exists>t'. i = intent_of_response (unicode_lower e) t')"
    proof (rule disjE[OF eff])
      assume "backend_calls st' = backend_calls st \<and> i = intent_default"
      then show ?thesis by (simp add: intent_default_def)
    next
      assume "\<exists>cr. backend_calls st' = backend_calls st @ [cr]
             \<and> (call_max_tokens cr = 100 \<or> call_max_tokens cr = 1000)
             \<and> (is_dashscope_call cr
                  \<longleftrightarrow> is_dashscope_api (unicode_lower e) (settings_table st c))
             \<and> i = (case call_reply cr of Inl err \<Rightarrow> intent_default
                     | Inr t \<Rightarrow> intent_of_response (unicode_lower e) t)"
      then show ?thesis
      proof (elim exE conjE)
        fix cr' :: call_record
        assume i: "i = (case call_reply cr' of Inl err \<Rightarrow> intent_default
              | Inr t \<Rightarrow> intent_of_response (unicode_lower e) t)"
        from i show ?thesis
          by (cases "call_reply cr'") (auto simp: intent_default_def)
      qed
    qed
    with io d show ?thesis by auto
  qed
  have 7: "intent_of_response lc t =
       (if sublist (ascii ''price'') (normalize_intent lc t)
           \<or> sublist [0x4EF7, 0x683C] (normalize_intent lc t) then ascii ''price''
        else if sublist (ascii ''tech'') (normalize_intent lc t)
           \<or> sublist [0x6280, 0x672F] (normalize_intent lc t) then ascii ''tech''
        else ascii ''default'')"
    by (simp add: intent_of_response_def Let_def intent_price_def intent_tech_def intent_default_def)
  have 8: "normalize_intent lc t = py_strip (filter (\<lambda>x. x \<noteq> 46 \<and> x \<noteq> 0x3002) (py_lower lc t))"
    by (simp add: normalize_intent_def py_remove_char_def)
  note 9 = raw_price_keyword[of t lc] intent_examples[of lc]
  from 1 2 3 4 5 6 7 8 9 show ?thesis by blast
qed

theorem detect_intent_never_fails_witness:
  "detect_intent (fixture_env (ascii ''price'') ok_answer (\<lambda>n. False))
       (fixture_world (gpt_account False None) []) cheaper_message (ascii ''acct'')
     = (ascii ''default'', fixture_world (gpt_account False None) [])
   \<and> call_reply (last (backend_calls (snd (detect_intent
        (fixture_env (ascii ''price'') ok_answer (\<lambda>n. False))
        (fixture_world dashscope_account []) cheaper_message (ascii ''acct'')))))
     = Inl RequestError
   \<and> fst (detect_intent (fixture_env (ascii ''price'') ok_answer (\<lambda>n. False))
        (fixture_world dashscope_account []) cheaper_message (ascii ''acct''))
     = ascii ''default''
   \<and> call_reply (last (backend_calls (snd (detect_intent
        (fixture_env (ascii ''price'') ok_answer (\<lambda>n. False))
        (fixture_world (gpt_account True None) []) cheaper_message (ascii ''acct'')))))
     = Inr (ascii ''price'')
   \<and> fst (detect_intent (fixture_env (ascii ''price'') ok_answer (\<lambda>n. False))
        (fixture_world (gpt_account True None) []) cheaper_message (ascii ''acct''))
     = ascii ''price''"
proof -
  let ?e = "fixture_env (ascii ''price'') ok_answer (\<lambda>n. False)"
  let ?off = "fixture_world (gpt_account False None) []"
  let ?ds = "fixture_world dashscope_account []"
  let ?on = "fixture_world (gpt_account True None) []"
  let ?c = "ascii ''acct''"
  have k: "ascii ''sk-test'' \<noteq> []" by (simp add: ascii_def)
  have off: "\<not> ai_enabled (settings_table ?off ?c)"
    by (simp add: fixture_defs gpt_account_def)
  have url: "sublist (ascii ''dashscope.aliyuncs.com'')
      (ascii ''https://dashscope.aliyuncs.com/api/v1/apps/abc'')"
    by code_simp
  have apps: "sublist (ascii ''/apps/'') (ascii ''https://dashscope.aliyuncs.com/api/v1/apps/abc'')"
    by code_simp
  have isd: "is_dashscope_api (\<lambda>before c after. [c])
      \<lparr>ai_enabled = True, api_key = Some (ascii ''sk-test''),
       base_url = Some (ascii ''https://dashscope.aliyuncs.com/api/v1/apps/abc''),
       model_name = Some (ascii ''custom''), custom_prompts = None, max_bargain_rounds = None,
       max_discount_percent = None, max_discount_amount = None\<rparr>"
    using is_dashscope_api_custom[OF _ url] by simp
  note ds_defs = detect_intent_def detect_intent_try_def Let_def fixture_defs dashscope_account_def
      load_custom_prompts_def call_dashscope_api_def truthy_def format_opt_def get_or_def
      isd apps k
  have ds_log: "backend_calls (snd (detect_intent ?e ?ds cheaper_message ?c))
      = backend_calls ?ds @ [last (backend_calls (snd (detect_intent ?e ?ds cheaper_message ?c)))]"
    by (simp add: ds_defs)
  have ds_reply: "call_reply (last (backend_calls (snd (detect_intent ?e ?ds cheaper_message ?c))))
      = Inl RequestError"
    by (simp add: ds_defs)
  have nd: "\<not> is_dashscope_api (\<lambda>before c after. [c])
      \<lparr>ai_enabled = True, api_key = Some (ascii ''sk-test''),
       base_url = Some (ascii ''https://api.openai.com/v1''),
       model_name = Some (ascii ''gpt-4''), custom_prompts = None, max_bargain_rounds = None,
       max_discount_percent = None, max_discount_amount = None\<rparr>"
    using fixture_not_dashscope[of True "ascii ''https://api.openai.com/v1''" None]
    by (simp add: fixture_settings_def)
  have ex: "extract_response_content
      \<lparr>choices = [\<lparr>content = Some (ascii ''price''), reasoning_content = None\<rparr>]\<rparr> = ascii ''price''"
    by (rule extract_label)
  note on_defs = detect_intent_def detect_intent_try_def Let_def fixture_defs gpt_account_def
      load_custom_prompts_def get_client_def call_openai_api_def ex
      truthy_def format_opt_def get_or_def nd k
  have on_log: "backend_calls (snd (detect_intent ?e ?on cheaper_message ?c))
      = backend_calls ?on @ [last (backend_calls (snd (detect_intent ?e ?on cheaper_message ?c)))]"
    by (simp add: on_defs)
  have on_reply: "call_reply (last (backend_calls (snd (detect_intent ?e ?on cheaper_message ?c))))
      = Inr (ascii ''price'')"
    by (simp add: on_defs)
  have lc: "unicode_lower ?e = (\<lambda>before c after. [c])"
    by (simp add: fixture_env_def)
  show ?thesis
    using off ds_log ds_reply on_log on_reply intent_of_response_price lc
      detect_intent_never_fails[where e = ?e and st = ?off and c = ?c and m = cheaper_message,
        THEN conjunct1]
      detect_intent_never_fails[where e = ?e and st = ?ds and c = ?c and m = cheaper_message
        and err = RequestError
        and cr = "last (backend_calls (snd (detect_intent ?e ?ds cheaper_message ?c)))",
        THEN conjunct2, THEN conjunct2, THEN conjunct2, THEN conjunct1]
      detect_intent_never_fails[where e = ?e and st = ?on and c = ?c and m = cheaper_message
        and t = "ascii ''price''"
        and cr = "last (backend_calls (snd (detect_intent ?e ?on cheaper_message ?c)))",
        THEN conjunct2, THEN conjunct2, THEN conjunct2, THEN conjunct2, THEN conjunct1]
    by simp
qed

section \<open>Reply orchestrator\<close>

text \<open>
  C4. For an account with AI disabled, \<open>generate_reply\<close> returns \<open>None\<close> and leaves the
  whole state as it was: no row is appended and no database operation is made.
\<close>

theorem generate_reply_disabled:
  "\<not> is_ai_enabled st cookie_id \<Longrightarrow>
   generate_reply e st message info chat_id cookie_id user_id item_id = (None, st)
   \<and> ai_conversations (snd (generate_reply e st message info chat_id cookie_id user_id item_id))
       = ai_conversations st
   \<and> db_ops (snd (generate_reply e st message info chat_id cookie_id user_id item_id)) = db_ops st"
  by (simp add: generate_reply_def)

theorem generate_reply_disabled_witness:
  "\<not> is_ai_enabled (fixture_world (gpt_account False None) three_rounds) (ascii ''acct'')
   \<and> generate_reply (fixture_env (ascii ''price'') ok_answer (\<lambda>n. False))
        (fixture_world (gpt_account False None) three_rounds)
        cheaper_message no_details (ascii ''chat'') (ascii ''acct'') (ascii ''buyer'') (ascii ''item'')
     = (None, fixture_world (gpt_account False None) three_rounds)"
proof -
  have off: "\<not> is_ai_enabled (fixture_world (gpt_account False None) three_rounds) (ascii ''acct'')"
    by (simp add: is_ai_enabled_def fixture_defs gpt_account_def)
  show ?thesis
    using off generate_reply_disabled[OF off,
        where e = "fixture_env (ascii ''price'') ok_answer (\<lambda>n. False)"
        and message = cheaper_message and info = no_details and chat_id = "ascii ''chat''"
        and user_id = "ascii ''buyer''" and item_id = "ascii ''item''"]
    by simp
qed

lemma bargain_count_in_policy:
  assumes "detect_intent e st m c = (i, st1)"
    and "get_conversation_context e st1 chat c 20 = (ctx, st2)"
    and "get_bargain_count e st2 chat c = (n, st3)"
  shows "n = (if db_fails e (Suc (db_ops st)) then 0
              else int (length (filter (\<lambda>r. matches chat c r
                     \<and> row_intent r = Some (ascii ''price'') \<and> row_role r = ascii ''user'')
                   (ai_conversations st))))"
proof -
  have s: "same_store st st1" using detect_intent_effect(1)[OF assms(1)] .
  have 2: "st2 = st1\<lparr>db_ops := Suc (db_ops st1)\<rparr>"
    using get_conversation_context_effect[OF assms(2)] .
  from s 2 have "db_ops st2 = Suc (db_ops st)" and "ai_conversations st2 = ai_conversations st"
    by (simp_all add: same_store_def)
  with assms(3) show ?thesis
    by (auto simp: get_bargain_count_def Let_def split: if_splits)
qed

text \<open>
  C1, as stated, fails in its last part: the two turns are handed to
  \<open>save_conversation\<close>, which logs and swallows an error of the database, so a turn
  whose write fails is not persisted while the refusal is returned all the same. Here
  three \<open>price\<close> rounds are stored, the cap is 3, the message is classified as
  \<open>price\<close>, and the \<open>INSERT\<close> of the user turn (the third database operation of the
  run, after the two reads) fails: \<open>generate_reply\<close> returns the refusal, and the history
  has grown by one row only, the refusal; the user turn is not in it.
\<close>

theorem refusal_write_failure_counterexample:
  "is_ai_enabled (fixture_world (gpt_account True (Some 3)) three_rounds) (ascii ''acct'')
   \<and> fst (detect_intent (fixture_env (ascii ''price'') ok_answer (\<lambda>n. n = 2))
        (fixture_world (gpt_account True (Some 3)) three_rounds) cheaper_message (ascii ''acct''))
      = ascii ''price''
   \<and> fst (get_bargain_count (fixture_env (ascii ''price'') ok_answer (\<lambda>n. n = 2))
        (snd (get_conversation_context (fixture_env (ascii ''price'') ok_answer (\<lambda>n. n = 2))
           (snd (detect_intent (fixture_env (ascii ''price'') ok_answer (\<lambda>n. n = 2))
              (fixture_world (gpt_account True (Some 3)) three_rounds) cheaper_message
              (ascii ''acct'')))
           (ascii ''chat'') (ascii ''acct'') 20))
        (ascii ''chat'') (ascii ''acct'')) = 3
   \<and> fst (generate_reply (fixture_env (ascii ''price'') ok_answer (\<lambda>n. n = 2))
        (fixture_world (gpt_account True (Some 3)) three_rounds)
        cheaper_message no_details (ascii ''chat'') (ascii ''acct'') (ascii ''buyer'') (ascii ''item''))
      = Some refuse_reply
   \<and> ai_conversations (snd (generate_reply (fixture_env (ascii ''price'') ok_answer (\<lambda>n. n = 2))
        (fixture_world (gpt_account True (Some 3)) three_rounds)
        cheaper_message no_details (ascii ''chat'') (ascii ''acct'') (ascii ''buyer'') (ascii ''item'')))
      = three_rounds @
         [\<lparr>row_cookie_id = ascii ''acct'', row_chat_id = ascii ''chat'', row_user_id = ascii ''buyer'', row_item_id = ascii ''item'',
           row_role = ascii ''assistant'', row_content = refuse_reply,
           row_intent = Some (ascii ''price'')\<rparr>]
   \<and> length (ai_conversations (snd (generate_reply (fixture_env (ascii ''price'') ok_answer (\<lambda>n. n = 2))
        (fixture_world (gpt_account True (Some 3)) three_rounds)
        cheaper_message no_details (ascii ''chat'') (ascii ''acct'') (ascii ''buyer'') (ascii ''item''))))
      = length three_rounds + 1"
proof -
  let ?e = "fixture_env (ascii ''price'') ok_answer (\<lambda>n. n = 2)"
  let ?w = "fixture_world (gpt_account True (Some 3)) three_rounds"
  let ?c = "ascii ''acct''" and ?chat = "ascii ''chat''"
  let ?D = "detect_intent ?e ?w cheaper_message ?c"
  let ?X = "get_conversation_context ?e (snd ?D) ?chat ?c 20"
  let ?B = "get_bargain_count ?e (snd ?X) ?chat ?c"
  let ?G = "generate_reply ?e ?w cheaper_message no_details ?chat ?c (ascii ''buyer'') (ascii ''item'')"
  have en: "is_ai_enabled ?w ?c"
    by (simp add: is_ai_enabled_def fixture_defs gpt_account_def)
  have d: "?D = (fst ?D, snd ?D)" and x: "?X = (fst ?X, snd ?X)" and b: "?B = (fst ?B, snd ?B)"
    and g: "?G = (fst ?G, snd ?G)"
    by simp_all
  have i: "fst ?D = ascii ''price''"
    unfolding gpt_account_def by (rule fixture_detect_intent_price)
  have n: "fst ?B = 3"
    using bargain_count_in_policy[OF d x b]
    by (simp add: fixture_defs gpt_account_def three_rounds_def price_turn_def matches_def)
  have cap: "get_or (max_bargain_rounds (settings_table ?w ?c)) 3 = 3"
    by (simp add: fixture_defs gpt_account_def get_or_def)
  have c: "fst ?D = ascii ''price''
      \<and> get_or (max_bargain_rounds (settings_table ?w ?c)) 3 \<le> fst ?B"
    using i n cap by simp
  note eff = policy_steps_effect[OF d x b]
  have ops: "db_ops (snd ?B) = 2"
    using eff(4) by (simp add: fixture_world_def)
  have rows: "ai_conversations (snd ?B) = three_rounds"
    using eff(3) by (simp add: fixture_world_def)
  have f1: "db_fails ?e 2" and f2: "\<not> db_fails ?e (Suc 2)"
    by (simp_all add: fixture_env_def)
  have r1: "fst ?G = Some refuse_reply"
    using refusal_iff(1)[OF en d x b g] c by simp
  have st: "snd ?G = save_conversation ?e
      (save_conversation ?e (snd ?B) ?chat ?c (ascii ''buyer'') (ascii ''item'') (ascii ''user'')
         cheaper_message (Some (ascii ''price'')))
      ?chat ?c (ascii ''buyer'') (ascii ''item'') (ascii ''assistant'') refuse_reply
      (Some (ascii ''price''))"
    using refusal_iff(2)[OF en d x b g c] .
  have r2: "ai_conversations (snd ?G) = three_rounds @
         [\<lparr>row_cookie_id = ascii ''acct'', row_chat_id = ascii ''chat'', row_user_id = ascii ''buyer'', row_item_id = ascii ''item'',
           row_role = ascii ''assistant'', row_content = refuse_reply,
           row_intent = Some (ascii ''price'')\<rparr>]"
    unfolding st using ops rows f1 f2 by (simp add: save_conversation_effect)
  have r3: "length (ai_conversations (snd ?G)) = length three_rounds + 1"
    unfolding r2 by simp
  from en i n r1 r2 r3 show ?thesis
    by (intro conjI)
qed

text \<open>
  C1, amended. Let \<open>i\<close> be the intent that \<open>detect_intent\<close> returns for the message,
  \<open>n\<close> the round count that \<open>get_bargain_count\<close> returns and \<open>m\<close> the configured cap
  (\<open>max_bargain_rounds\<close>, 3 when the key is absent). \<open>generate_reply\<close> refuses, that is, it
  returns the fixed refusal text with no backend call after the classifier's, exactly
  when \<open>i\<close> is \<open>price\<close> and \<open>n \<ge> m\<close>. When it refuses, no generation call is made (the
  log of backend calls is the one the classifier left), the reply is the refusal text,
  and the state changes by exactly two calls of \<open>save_conversation\<close>: the user turn and
  then the refusal as the assistant turn, both tagged \<open>price\<close>. Each of the two turns is
  persisted exactly when the store accepts its write, and nothing else is added to the
  history: it grows by exactly these two rows when both writes are accepted. The refusal
  text is the one of the source, 24 characters long.
\<close>

theorem negotiation_cap_refusal:
  assumes "is_ai_enabled st c"
    and "detect_intent e st m c = (i, st1)"
    and "get_conversation_context e st1 chat c 20 = (ctx, st2)"
    and "get_bargain_count e st2 chat c = (n, st3)"
    and "generate_reply e st m info chat c u it = (reply, st')"
  shows "((reply = Some refuse_reply \<and> backend_calls st' = backend_calls st1)
           \<longleftrightarrow> (i = ascii ''price'' \<and> n \<ge> get_or (max_bargain_rounds (settings_table st c)) 3))
    \<and> (i = ascii ''price'' \<and> n \<ge> get_or (max_bargain_rounds (settings_table st c)) 3 \<longrightarrow>
          reply = Some refuse_reply \<and> backend_calls st' = backend_calls st1
          \<and> st' = save_conversation e
                (save_conversation e st3 chat c u it (ascii ''user'') m (Some (ascii ''price'')))
                chat c u it (ascii ''assistant'') refuse_reply (Some (ascii ''price''))
          \<and> db_ops st' = Suc (Suc (db_ops st3))
          \<and> ai_conversations st' = ai_conversations st
               @ (if db_fails e (db_ops st3) then []
                  else [\<lparr>row_cookie_id = c, row_chat_id = chat, row_user_id = u, row_item_id = it,
                        row_role = ascii ''user'', row_content = m,
                        row_intent = Some (ascii ''price'')\<rparr>])
               @ (if db_fails e (Suc (db_ops st3)) then []
                  else [\<lparr>row_cookie_id = c, row_chat_id = chat, row_user_id = u, row_item_id = it,
                        row_role = ascii ''assistant'', row_content = refuse_reply,
                        row_intent = Some (ascii ''price'')\<rparr>])
          \<and> (\<not> db_fails e (db_ops st3) \<and> \<not> db_fails e (Suc (db_ops st3)) \<longrightarrow>
               ai_conversations st' = ai_conversations st @
                 [\<lparr>row_cookie_id = c, row_chat_id = chat, row_user_id = u, row_item_id = it,
                   row_role = ascii ''user'', row_content = m,
                   row_intent = Some (ascii ''price'')\<rparr>,
                  \<lparr>row_cookie_id = c, row_chat_id = chat, row_user_id = u, row_item_id = it,
                   row_role = ascii ''assistant'', row_content = refuse_reply,
                   row_intent = Some (ascii ''price'')\<rparr>]))
    \<and> refuse_reply =
          [25265, 27465, 65292, 36825, 20010, 20215, 26684, 24050, 32463, 26159, 26368,
               20248, 24800, 30340, 20102, 65292, 19981, 33021, 20877, 20415, 23452, 20102,
               21734, 65281]"
proof -
  note r = refusal_iff[OF assms]
  note eff = policy_steps_effect[OF assms(2-4)]
  have lit: "refuse_reply =
          [25265, 27465, 65292, 36825, 20010, 20215, 26684, 24050, 32463, 26159, 26368,
               20248, 24800, 30340, 20102, 65292, 19981, 33021, 20877, 20415, 23452, 20102,
               21734, 65281]"
    by (simp add: refuse_reply_def)
  have main: "(reply = Some refuse_reply \<and> backend_calls st' = backend_calls st1)
           \<longleftrightarrow> (i = ascii ''price'' \<and> n \<ge> get_or (max_bargain_rounds (settings_table st c)) 3)"
    using r(1) .
  have eff': "i = ascii ''price'' \<and> n \<ge> get_or (max_bargain_rounds (settings_table st c)) 3 \<longrightarrow>
          reply = Some refuse_reply \<and> backend_calls st' = backend_calls st1
          \<and> st' = save_conversation e
                (save_conversation e st3 chat c u it (ascii ''user'') m (Some (ascii ''price'')))
                chat c u it (ascii ''assistant'') refuse_reply (Some (ascii ''price''))
          \<and> db_ops st' = Suc (Suc (db_ops st3))
          \<and> ai_conversations st' = ai_conversations st
               @ (if db_fails e (db_ops st3) then []
                  else [\<lparr>row_cookie_id = c, row_chat_id = chat, row_user_id = u, row_item_id = it,
                        row_role = ascii ''user'', row_content = m,
                        row_intent = Some (ascii ''price'')\<rparr>])
               @ (if db_fails e (Suc (db_ops st3)) then []
                  else [\<lparr>row_cookie_id = c, row_chat_id = chat, row_user_id = u, row_item_id = it,
                        row_role = ascii ''assistant'', row_content = refuse_reply,
                        row_intent = Some (ascii ''price'')\<rparr>])
          \<and> (\<not> db_fails e (db_ops st3) \<and> \<not> db_fails e (Suc (db_ops st3)) \<longrightarrow>
               ai_conversations st' = ai_conversations st @
                 [\<lparr>row_cookie_id = c, row_chat_id = chat, row_user_id = u, row_item_id = it,
                   row_role = ascii ''user'', row_content = m,
                   row_intent = Some (ascii ''price'')\<rparr>,
                  \<lparr>row_cookie_id = c, row_chat_id = chat, row_user_id = u, row_item_id = it,
                   row_role = ascii ''assistant'', row_content = refuse_reply,
                   row_intent = Some (ascii ''price'')\<rparr>])"
    using r(1) r(2) eff(3) by (auto simp: save_conversation_effect)
  from main eff' lit show ?thesis
    by (intro conjI)
qed

theorem negotiation_cap_refusal_witness:
  "is_ai_enabled (fixture_world (gpt_account True (Some 3)) three_rounds) (ascii ''acct'')
   \<and> fst (detect_intent (fixture_env (ascii ''price'') ok_answer (\<lambda>n. False))
        (fixture_world (gpt_account True (Some 3)) three_rounds) cheaper_message (ascii ''acct''))
      = ascii ''price''
   \<and> fst (get_bargain_count (fixture_env (ascii ''price'') ok_answer (\<lambda>n. False))
        (snd (get_conversation_context (fixture_env (ascii ''price'') ok_answer (\<lambda>n. False))
           (snd (detect_intent (fixture_env (ascii ''price'') ok_answer (\<lambda>n. False))
              (fixture_world (gpt_account True (Some 3)) three_rounds) cheaper_message
              (ascii ''acct'')))
           (ascii ''chat'') (ascii ''acct'') 20))
        (ascii ''chat'') (ascii ''acct'')) = 3
   \<and> fst (generate_reply (fixture_env (ascii ''price'') ok_answer (\<lambda>n. False))
        (fixture_world (gpt_account True (Some 3)) three_rounds)
        cheaper_message no_details (ascii ''chat'') (ascii ''acct'') (ascii ''buyer'') (ascii ''item''))
      = Some refuse_reply
   \<and> backend_calls (snd (generate_reply (fixture_env (ascii ''price'') ok_answer (\<lambda>n. False))
        (fixture_world (gpt_account True (Some 3)) three_rounds)
        cheaper_message no_details (ascii ''chat'') (ascii ''acct'') (ascii ''buyer'') (ascii ''item'')))
      = backend_calls (snd (detect_intent (fixture_env (ascii ''price'') ok_answer (\<lambda>n. False))
        (fixture_world (gpt_account True (Some 3)) three_rounds) cheaper_message (ascii ''acct'')))
   \<and> ai_conversations (snd (generate_reply (fixture_env (ascii ''price'') ok_answer (\<lambda>n. False))
        (fixture_world (gpt_account True (Some 3)) three_rounds)
        cheaper_message no_details (ascii ''chat'') (ascii ''acct'') (ascii ''buyer'') (ascii ''item'')))
      = three_rounds @
         [\<lparr>row_cookie_id = ascii ''acct'', row_chat_id = ascii ''chat'',
           row_user_id = ascii ''buyer'', row_item_id = ascii ''item'',
           row_role = ascii ''user'', row_content = cheaper_message,
           row_intent = Some (ascii ''price'')\<rparr>,
          \<lparr>row_cookie_id = ascii ''acct'', row_chat_id = ascii ''chat'',
           row_user_id = ascii ''buyer'', row_item_id = ascii ''item'',
           row_role = ascii ''assistant'', row_content = refuse_reply,
           row_intent = Some (ascii ''price'')\<rparr>]"
proof -
  let ?e = "fixture_env (ascii ''price'') ok_answer (\<lambda>n. False)"
  let ?w = "fixture_world (gpt_account True (Some 3)) three_rounds"
  let ?c = "ascii ''acct''" and ?chat = "ascii ''chat''"
  let ?D = "detect_intent ?e ?w cheaper_message ?c"
  let ?X = "get_conversation_context ?e (snd ?D) ?chat ?c 20"
  let ?B = "get_bargain_count ?e (snd ?X) ?chat ?c"
  let ?G = "generate_reply ?e ?w cheaper_message no_details ?chat ?c (ascii ''buyer'') (ascii ''item'')"
  have en: "is_ai_enabled ?w ?c"
    by (simp add: is_ai_enabled_def fixture_defs gpt_account_def)
  have d: "?D = (fst ?D, snd ?D)" and x: "?X = (fst ?X, snd ?X)" and b: "?B = (fst ?B, snd ?B)"
    and g: "?G = (fst ?G, snd ?G)"
    by simp_all
  have i: "fst ?D = ascii ''price''"
    unfolding gpt_account_def by (rule fixture_detect_intent_price)
  have n: "fst ?B = 3"
    using bargain_count_in_policy[OF d x b]
    by (simp add: fixture_defs gpt_account_def three_rounds_def price_turn_def matches_def)
  have cap: "get_or (max_bargain_rounds (settings_table ?w ?c)) 3 = 3"
    by (simp add: fixture_defs gpt_account_def get_or_def)
  have ok: "\<not> db_fails ?e k" for k
    by (simp add: fixture_env_def)
  have rows: "ai_conversations ?w = three_rounds"
    by (simp add: fixture_world_def)
  have c: "fst ?D = ascii ''price''
      \<and> get_or (max_bargain_rounds (settings_table ?w ?c)) 3 \<le> fst ?B"
    using i n cap by simp
  note t = negotiation_cap_refusal[OF en d x b g, THEN conjunct2, THEN conjunct1, rule_format, OF c]
  have r1: "fst ?G = Some refuse_reply" using t by (rule conjunct1)
  have r2: "backend_calls (snd ?G) = backend_calls (snd ?D)"
    using t by (elim conjE)
  have r3: "\<not> db_fails ?e (db_ops (snd ?B)) \<and> \<not> db_fails ?e (Suc (db_ops (snd ?B))) \<longrightarrow>
      ai_conversations (snd ?G) = ai_conversations ?w @
         [\<lparr>row_cookie_id = ascii ''acct'', row_chat_id = ascii ''chat'',
           row_user_id = ascii ''buyer'', row_item_id = ascii ''item'',
           row_role = ascii ''user'', row_content = cheaper_message,
           row_intent = Some (ascii ''price'')\<rparr>,
          \<lparr>row_cookie_id = ascii ''acct'', row_chat_id = ascii ''chat'',
           row_user_id = ascii ''buyer'', row_item_id = ascii ''item'',
           row_role = ascii ''assistant'', row_content = refuse_reply,
           row_intent = Some (ascii ''price'')\<rparr>]"
    using t by (elim conjE)
  from r3 ok rows have r4: "ai_conversations (snd ?G) = three_rounds @
         [\<lparr>row_cookie_id = ascii ''acct'', row_chat_id = ascii ''chat'',
           row_user_id = ascii ''buyer'', row_item_id = ascii ''item'',
           row_role = ascii ''user'', row_content = cheaper_message,
           row_intent = Some (ascii ''price'')\<rparr>,
          \<lparr>row_cookie_id = ascii ''acct'', row_chat_id = ascii ''chat'',
           row_user_id = ascii ''buyer'', row_item_id = ascii ''item'',
           row_role = ascii ''assistant'', row_content = refuse_reply,
           row_intent = Some (ascii ''price'')\<rparr>]"
    by simp
  from en i n r1 r2 r4 show ?thesis
    by (intro conjI)
qed

text \<open>
  C5. In every run of \<open>generate_reply\<close>: if among the backend calls it made there is a
  generation call (token ceiling 2000) whose usable text is empty, then the result is
  \<open>None\<close> and the conversation table is as before, so no turn is persisted and the round
  count, which is read from the table, cannot grow. More generally, whenever the result
  is \<open>None\<close> nothing has been persisted. Content \<open>''\<close> with non-empty reasoning is one
  such case: the normalizer gives \<open>''\<close> for it.
\<close>

theorem empty_generation_persists_nothing:
  assumes "generate_reply e st m info chat c u it = (reply, st')"
  shows "(backend_calls st' = backend_calls st @ new \<and> cr \<in> set new
           \<and> call_max_tokens cr = 2000 \<and> call_reply cr = Inr [] \<longrightarrow>
          reply = None \<and> ai_conversations st' = ai_conversations st)
       \<and> (reply = None \<longrightarrow> ai_conversations st' = ai_conversations st)"
proof (cases "is_ai_enabled st c")
  case False
  with assms show ?thesis by (auto simp: generate_reply_def)
next
  case True
  obtain i st1 where d: "detect_intent e st m c = (i, st1)" by (cases "detect_intent e st m c")
  obtain ctx st2 where x: "get_conversation_context e st1 chat c 20 = (ctx, st2)"
    by (cases "get_conversation_context e st1 chat c 20")
  obtain n st3 where b: "get_bargain_count e st2 chat c = (n, st3)"
    by (cases "get_bargain_count e st2 chat c")
  note eff = policy_steps_effect[OF d x b]
  note de = detect_intent_effect(2)[OF d]
  obtain r where r: "generate_reply_try e st m info chat c u it = (r, st')"
    and reply: "reply = (case r of Inl err \<Rightarrow> None | Inr v \<Rightarrow> v)"
    using assms True by (auto simp: generate_reply_def split: prod.splits sum.splits)
  show ?thesis
  proof (cases "i = ascii ''price'' \<and> n \<ge> get_or (max_bargain_rounds (settings_table st c)) 3")
    case True
    then have "generate_reply_try e st m info chat c u it =
       (Inr (Some refuse_reply),
        save_conversation e
          (save_conversation e st3 chat c u it (ascii ''user'') m (Some (ascii ''price'')))
          chat c u it (ascii ''assistant'') refuse_reply (Some (ascii ''price'')))"
      using generate_reply_try_refuse[OF d x b, where info=info and u=u and it=it] by simp
    with r have "r = Inr (Some refuse_reply)"
      and "st' = save_conversation e
          (save_conversation e st3 chat c u it (ascii ''user'') m (Some (ascii ''price'')))
          chat c u it (ascii ''assistant'') refuse_reply (Some (ascii ''price''))"
      by simp_all
    then have "reply \<noteq> None" and "backend_calls st' = backend_calls st1"
      using reply eff(2) by (simp_all add: save_conversation_effect)
    with de show ?thesis by auto
  next
    case False
    from generate_reply_try_proceed[OF d x b False r] eff(2,3) reply de show ?thesis
      by (auto simp: save_conversation_effect same_store_def)
  qed
qed

theorem empty_generation_persists_nothing_witness:
  "call_max_tokens (last (backend_calls (snd (generate_reply
        (fixture_env (ascii ''tech'') thinking_only (\<lambda>n. False))
        (fixture_world (gpt_account True None) [])
        cheaper_message no_details (ascii ''chat'') (ascii ''acct'') (ascii ''buyer'') (ascii ''item''))))) = 2000
   \<and> call_reply (last (backend_calls (snd (generate_reply
        (fixture_env (ascii ''tech'') thinking_only (\<lambda>n. False))
        (fixture_world (gpt_account True None) [])
        cheaper_message no_details (ascii ''chat'') (ascii ''acct'') (ascii ''buyer'') (ascii ''item''))))) = Inr []
   \<and> generate_reply (fixture_env (ascii ''tech'') thinking_only (\<lambda>n. False))
        (fixture_world (gpt_account True None) [])
        cheaper_message no_details (ascii ''chat'') (ascii ''acct'') (ascii ''buyer'') (ascii ''item'')
      = (None, snd (generate_reply (fixture_env (ascii ''tech'') thinking_only (\<lambda>n. False))
        (fixture_world (gpt_account True None) [])
        cheaper_message no_details (ascii ''chat'') (ascii ''acct'') (ascii ''buyer'') (ascii ''item'')))
   \<and> ai_conversations (snd (generate_reply (fixture_env (ascii ''tech'') thinking_only (\<lambda>n. False))
        (fixture_world (gpt_account True None) [])
        cheaper_message no_details (ascii ''chat'') (ascii ''acct'') (ascii ''buyer'') (ascii ''item''))) = []"
proof -
  let ?e = "fixture_env (ascii ''tech'') thinking_only (\<lambda>n. False)"
  let ?w = "fixture_world (gpt_account True None) []"
  let ?G = "generate_reply ?e ?w cheaper_message no_details (ascii ''chat'') (ascii ''acct'')
      (ascii ''buyer'') (ascii ''item'')"
  note f = fixture_empty_generation[of cheaper_message no_details "ascii ''chat''" "ascii ''acct''"
      "ascii ''buyer''" "ascii ''item''", folded gpt_account_def thinking_only_def]
  have g: "?G = (fst ?G, snd ?G)" by simp
  have new: "backend_calls (snd ?G) = backend_calls ?w @ backend_calls (snd ?G)"
    by (simp add: fixture_world_def)
  have mem: "last (backend_calls (snd ?G)) \<in> set (backend_calls (snd ?G))"
    using f(3) by simp
  have rows: "ai_conversations ?w = []"
    by (simp add: fixture_world_def)
  from empty_generation_persists_nothing[OF g, where new = "backend_calls (snd ?G)"
      and cr = "last (backend_calls (snd ?G))"] new mem f(4) f(5) rows
  show ?thesis
    by (simp add: prod_eq_iff)
qed

text \<open>
  C10, as stated, fails when the configured cap is 0: the count read fails, the count is
  taken as 0, and \<open>0 \<ge> 0\<close> refuses. Here the read of the count fails, the message is
  classified as \<open>price\<close>, the cap is 0, and \<open>generate_reply\<close> refuses.
\<close>

theorem read_failure_refusal_counterexample:
  "db_fails (fixture_env (ascii ''price'') ok_answer (\<lambda>n. n = 1))
      (Suc (db_ops (fixture_world (gpt_account True (Some 0)) three_rounds)))
   \<and> fst (detect_intent (fixture_env (ascii ''price'') ok_answer (\<lambda>n. n = 1))
        (fixture_world (gpt_account True (Some 0)) three_rounds) cheaper_message (ascii ''acct''))
      = ascii ''price''
   \<and> fst (generate_reply (fixture_env (ascii ''price'') ok_answer (\<lambda>n. n = 1))
        (fixture_world (gpt_account True (Some 0)) three_rounds)
        cheaper_message no_details (ascii ''chat'') (ascii ''acct'') (ascii ''buyer'') (ascii ''item''))
      = Some refuse_reply
   \<and> backend_calls (snd (generate_reply (fixture_env (ascii ''price'') ok_answer (\<lambda>n. n = 1))
        (fixture_world (gpt_account True (Some 0)) three_rounds)
        cheaper_message no_details (ascii ''chat'') (ascii ''acct'') (ascii ''buyer'') (ascii ''item'')))
      = backend_calls (snd (detect_intent (fixture_env (ascii ''price'') ok_answer (\<lambda>n. n = 1))
        (fixture_world (gpt_account True (Some 0)) three_rounds) cheaper_message (ascii ''acct'')))"
proof -
  let ?e = "fixture_env (ascii ''price'') ok_answer (\<lambda>n. n = 1)"
  let ?w = "fixture_world (gpt_account True (Some 0)) three_rounds"
  let ?c = "ascii ''acct''" and ?chat = "ascii ''chat''"
  let ?D = "detect_intent ?e ?w cheaper_message ?c"
  let ?X = "get_conversation_context ?e (snd ?D) ?chat ?c 20"
  let ?B = "get_bargain_count ?e (snd ?X) ?chat ?c"
  let ?G = "generate_reply ?e ?w cheaper_message no_details ?chat ?c (ascii ''buyer'') (ascii ''item'')"
  have en: "is_ai_enabled ?w ?c"
    by (simp add: is_ai_enabled_def fixture_defs gpt_account_def)
  have d: "?D = (fst ?D, snd ?D)" and x: "?X = (fst ?X, snd ?X)" and b: "?B = (fst ?B, snd ?B)"
    and g: "?G = (fst ?G, snd ?G)"
    by simp_all
  have i: "fst ?D = ascii ''price''"
    unfolding gpt_account_def by (rule fixture_detect_intent_price)
  have fault: "db_fails ?e (Suc (db_ops ?w))"
    by (simp add: fixture_defs)
  have n: "fst ?B = 0"
    using bargain_count_in_policy[OF d x b] fault by simp
  have cap: "get_or (max_bargain_rounds (settings_table ?w ?c)) 3 = 0"
    by (simp add: fixture_defs gpt_account_def get_or_def)
  from refusal_iff(1)[OF en d x b g] i n cap fault show ?thesis
    by simp
qed

text \<open>
  C10, amended. When the read inside \<open>get_bargain_count\<close> fails, the function returns 0
  and raises nothing. So when the count read of a run of \<open>generate_reply\<close> fails and the
  message is classified as \<open>price\<close>, the run refuses exactly when the configured cap is
  at most 0: with a cap of at least 1 it does not refuse, whatever the persisted history
  holds.
\<close>

theorem bargain_count_read_failure:
  "(db_fails e (db_ops st) \<longrightarrow>
      get_bargain_count e st chat c = (0, st\<lparr>db_ops := Suc (db_ops st)\<rparr>))
   \<and> (is_ai_enabled st c \<and> fst (detect_intent e st m c) = ascii ''price''
        \<and> db_fails e (Suc (db_ops st)) \<longrightarrow>
        ((fst (generate_reply e st m info chat c u it) = Some refuse_reply
           \<and> backend_calls (snd (generate_reply e st m info chat c u it))
               = backend_calls (snd (detect_intent e st m c)))
          \<longleftrightarrow> get_or (max_bargain_rounds (settings_table st c)) 3 \<le> 0)
        \<and> (1 \<le> get_or (max_bargain_rounds (settings_table st c)) 3 \<longrightarrow>
             \<not> (fst (generate_reply e st m info chat c u it) = Some refuse_reply
                \<and> backend_calls (snd (generate_reply e st m info chat c u it))
                    = backend_calls (snd (detect_intent e st m c)))))"
proof -
  let ?D = "detect_intent e st m c"
  let ?X = "get_conversation_context e (snd ?D) chat c 20"
  let ?B = "get_bargain_count e (snd ?X) chat c"
  let ?G = "generate_reply e st m info chat c u it"
  have 1: "db_fails e (db_ops st) \<longrightarrow>
      get_bargain_count e st chat c = (0, st\<lparr>db_ops := Suc (db_ops st)\<rparr>)"
    by (simp add: get_bargain_count_def Let_def)
  have d: "?D = (fst ?D, snd ?D)" and x: "?X = (fst ?X, snd ?X)" and b: "?B = (fst ?B, snd ?B)"
    and g: "?G = (fst ?G, snd ?G)"
    by simp_all
  have 2: "(fst ?G = Some refuse_reply \<and> backend_calls (snd ?G) = backend_calls (snd ?D))
      \<longleftrightarrow> get_or (max_bargain_rounds (settings_table st c)) 3 \<le> 0"
    if "is_ai_enabled st c" and "fst ?D = ascii ''price''" and "db_fails e (Suc (db_ops st))"
  proof -
    have "fst ?B = 0"
      using bargain_count_in_policy[OF d x b] that(3) by simp
    with refusal_iff(1)[OF that(1) d x b g] that(2) show ?thesis
      by simp
  qed
  from 1 2 show ?thesis
    by auto
qed

theorem bargain_count_read_failure_witness:
  "db_fails (fixture_env (ascii ''price'') ok_answer (\<lambda>n. n = 1))
      (db_ops ((fixture_world (gpt_account True None) three_rounds)\<lparr>db_ops := 1\<rparr>))
   \<and> get_bargain_count (fixture_env (ascii ''price'') ok_answer (\<lambda>n. n = 1))
        ((fixture_world (gpt_account True None) three_rounds)\<lparr>db_ops := 1\<rparr>)
        (ascii ''chat'') (ascii ''acct'')
      = (0, (fixture_world (gpt_account True None) three_rounds)\<lparr>db_ops := 2\<rparr>)
   \<and> is_ai_enabled (fixture_world (gpt_account True None) three_rounds) (ascii ''acct'')
   \<and> fst (detect_intent (fixture_env (ascii ''price'') ok_answer (\<lambda>n. n = 1))
        (fixture_world (gpt_account True None) three_rounds) cheaper_message (ascii ''acct''))
      = ascii ''price''
   \<and> db_fails (fixture_env (ascii ''price'') ok_answer (\<lambda>n. n = 1))
        (Suc (db_ops (fixture_world (gpt_account True None) three_rounds)))
   \<and> \<not> (fst (generate_reply (fixture_env (ascii ''price'') ok_answer (\<lambda>n. n = 1))
            (fixture_world (gpt_account True None) three_rounds)
            cheaper_message no_details (ascii ''chat'') (ascii ''acct'') (ascii ''buyer'')
            (ascii ''item'')) = Some refuse_reply
        \<and> backend_calls (snd (generate_reply (fixture_env (ascii ''price'') ok_answer (\<lambda>n. n = 1))
            (fixture_world (gpt_account True None) three_rounds)
            cheaper_message no_details (ascii ''chat'') (ascii ''acct'') (ascii ''buyer'')
            (ascii ''item'')))
          = backend_calls (snd (detect_intent (fixture_env (ascii ''price'') ok_answer (\<lambda>n. n = 1))
            (fixture_world (gpt_account True None) three_rounds) cheaper_message (ascii ''acct''))))"
proof -
  let ?e = "fixture_env (ascii ''price'') ok_answer (\<lambda>n. n = 1)"
  let ?w = "fixture_world (gpt_account True None) three_rounds"
  let ?c = "ascii ''acct''"
  have en: "is_ai_enabled ?w ?c"
    by (simp add: is_ai_enabled_def fixture_defs gpt_account_def)
  have i: "fst (detect_intent ?e ?w cheaper_message ?c) = ascii ''price''"
    unfolding gpt_account_def by (rule fixture_detect_intent_price)
  have f1: "db_fails ?e (db_ops (?w\<lparr>db_ops := 1\<rparr>))" and f2: "db_fails ?e (Suc (db_ops ?w))"
    by (simp_all add: fixture_defs)
  have cap: "get_or (max_bargain_rounds (settings_table ?w ?c)) 3 = 3"
    by (simp add: fixture_defs gpt_account_def get_or_def)
  from bargain_count_read_failure[where e = ?e and st = "?w\<lparr>db_ops := 1\<rparr>"
      and chat = "ascii ''chat''" and c = ?c, THEN conjunct1]
    bargain_count_read_failure[where e = ?e and st = ?w and m = cheaper_message
      and info = no_details and chat = "ascii ''chat''" and c = ?c and u = "ascii ''buyer''"
      and it = "ascii ''item''", THEN conjunct2]
    en i f1 f2 cap
  show ?thesis
    by simp
qed

end
